theory Spec2Isabelle
  imports Complex_Main "HOL-Library.Multiset" "HOL-Library.Char_ord" "HOL-Library.List_Lexorder"
begin

section \<open>Dates, timestamps and calendar months\<close>

text \<open>
  The dashboard script \<^verbatim>\<open>app.py\<close> reads four sheets of a workbook into pandas data
  frames, cleans their \<^verbatim>\<open>Date\<close> column, and computes monthly aggregates and totals
  in \<^verbatim>\<open>create_figures\<close>. This theory embeds the data frames and every pandas
  operation the script applies to them, line by line, and proves what the
  aggregates are.

  A pandas timestamp is a calendar date with a time of day (seconds after
  midnight are enough here). Timestamps compare chronologically.
\<close>

datatype date = Date (year: nat) (month: nat) (day: nat)

datatype timestamp = Timestamp (ts_date: date) (ts_secs: nat)

fun date_less :: "date \<Rightarrow> date \<Rightarrow> bool" where
  "date_less (Date y m d) (Date y' m' d') =
     (y < y' \<or> (y = y' \<and> (m < m' \<or> (m = m' \<and> d < d'))))"

definition date_le :: "date \<Rightarrow> date \<Rightarrow> bool" where
  "date_le a b = (date_less a b \<or> a = b)"

fun ts_less :: "timestamp \<Rightarrow> timestamp \<Rightarrow> bool" where
  "ts_less (Timestamp a s) (Timestamp b s') = (date_less a b \<or> (a = b \<and> s < s'))"

definition ts_le :: "timestamp \<Rightarrow> timestamp \<Rightarrow> bool" where
  "ts_le a b = (ts_less a b \<or> a = b)"

text \<open>A date string such as \<^verbatim>\<open>"2025-01-01"\<close> compared with a timestamp column is
  the timestamp of that day at midnight.\<close>

definition midnight :: "date \<Rightarrow> timestamp" where
  "midnight d = Timestamp d 0"

text \<open>The ordinal of a calendar month (pandas' monthly period), and the first day of
  the month with a given ordinal (\<^verbatim>\<open>to_period("M").to_timestamp()\<close>, and the
  \<^verbatim>\<open>"MS"\<close> bins of \<^verbatim>\<open>resample\<close>).\<close>

definition month_ord :: "date \<Rightarrow> nat" where
  "month_ord d = year d * 12 + (month d - 1)"

definition month_start :: "nat \<Rightarrow> date" where
  "month_start k = Date (k div 12) (k mod 12 + 1) 1"

section \<open>Parsing date text\<close>

text \<open>
  \<^verbatim>\<open>pd.to_datetime(col, format=..., errors="coerce")\<close> is used with two formats:
  \<^verbatim>\<open>"%m-%d-%Y"\<close> for the token sheet and \<^verbatim>\<open>"%Y-%m-%d"\<close> for the other three.
  \<open>strptime\<close> accepts a four-digit year, a month and a day of one or two digits,
  separated by hyphens, that form a calendar date within the years a pandas timestamp
  can hold (taken as the whole years 1678 to 2261). With \<^verbatim>\<open>errors="coerce"\<close> a text
  that does not parse gives the missing value instead of an exception.
\<close>

datatype date_format = Fmt_mdY | Fmt_Ymd

definition digit :: "char \<Rightarrow> nat option" where
  "digit c = (let n = (of_char c :: nat) in if 48 \<le> n \<and> n \<le> 57 then Some (n - 48) else None)"

fun digits_val :: "string \<Rightarrow> nat \<Rightarrow> nat option" where
  "digits_val [] acc = Some acc"
| "digits_val (c # cs) acc =
     (case digit c of None \<Rightarrow> None | Some d \<Rightarrow> digits_val cs (10 * acc + d))"

definition number :: "string \<Rightarrow> nat option" where
  "number s = (if s = [] then None else digits_val s 0)"

fun split_on :: "char \<Rightarrow> string \<Rightarrow> string list" where
  "split_on sep [] = [[]]"
| "split_on sep (c # cs) =
     (if c = sep then [] # split_on sep cs
      else (case split_on sep cs of [] \<Rightarrow> [[c]] | w # ws \<Rightarrow> (c # w) # ws))"

definition leap_year :: "nat \<Rightarrow> bool" where
  "leap_year y = (y mod 4 = 0 \<and> (y mod 100 \<noteq> 0 \<or> y mod 400 = 0))"

definition days_in_month :: "nat \<Rightarrow> nat \<Rightarrow> nat" where
  "days_in_month y m =
     (if m = 2 then (if leap_year y then 29 else 28)
      else if m = 4 \<or> m = 6 \<or> m = 9 \<or> m = 11 then 30 else 31)"

definition make_date :: "string \<Rightarrow> string \<Rightarrow> string \<Rightarrow> date option" where
  "make_date ys ms ds =
     (if length ys = 4 \<and> length ms \<le> 2 \<and> length ds \<le> 2 then
        (case (number ys, number ms, number ds) of
           (Some y, Some m, Some d) \<Rightarrow>
             if 1678 \<le> y \<and> y \<le> 2261 \<and> 1 \<le> m \<and> m \<le> 12 \<and> 1 \<le> d \<and> d \<le> days_in_month y m
             then Some (Date y m d) else None
         | _ \<Rightarrow> None)
      else None)"

definition strptime :: "date_format \<Rightarrow> string \<Rightarrow> date option" where
  "strptime fmt s =
     (case split_on (CHR ''-'') s of
        [a, b, c] \<Rightarrow> (case fmt of Fmt_Ymd \<Rightarrow> make_date a b c | Fmt_mdY \<Rightarrow> make_date c a b)
      | _ \<Rightarrow> None)"

section \<open>Data frames\<close>

text \<open>
  A cell of a sheet is a number, a blank (pandas' NaN, and NaT in a datetime column),
  a text, or a date-time cell, which \<^verbatim>\<open>read_excel\<close> returns as a timestamp. A number
  is a whole number or a fraction: pandas holds it as an \<^verbatim>\<open>int64\<close> or a \<^verbatim>\<open>float64\<close>,
  and it is taken here as the rational number it denotes (the rounding of
  floating-point addition is left out). A data frame is its list of columns, each
  with the dtype pandas gave it, and its rows; a row gives the cell under each column
  name. The dtype of a column is fixed when the sheet is read and does not change
  when rows are dropped.
\<close>

datatype cell = Num rat | NaN | Text string | Stamp timestamp

datatype dtype = Number | Datetime | Object

type_synonym row = "string \<Rightarrow> cell"

record frame =
  columns :: "(string \<times> dtype) list"
  rows :: "row list"

definition column_names :: "frame \<Rightarrow> string list" where
  "column_names f = map fst (columns f)"

fun numeric_cell :: "cell \<Rightarrow> bool" where
  "numeric_cell (Num n) = True"
| "numeric_cell NaN = True"
| "numeric_cell c = False"

fun datetime_cell :: "cell \<Rightarrow> bool" where
  "datetime_cell (Stamp t) = True"
| "datetime_cell NaN = True"
| "datetime_cell c = False"

text \<open>\<^verbatim>\<open>read_excel\<close> types a column from its cells: numbers (with blanks) give a
  numeric dtype, date-time cells a datetime dtype, anything else, and a column with no
  cell at all, the object dtype.\<close>

definition infer_dtype :: "cell list \<Rightarrow> dtype" where
  "infer_dtype cs =
     (if cs = [] then Object
      else if list_all numeric_cell cs then Number
      else if list_all datetime_cell cs then Datetime
      else Object)"

record sheet =
  header :: "string list"
  body :: "row list"

definition read_sheet :: "sheet \<Rightarrow> frame" where
  "read_sheet sh =
     \<lparr>columns = map (\<lambda>c. (c, infer_dtype (map (\<lambda>r. r c) (body sh)))) (header sh),
      rows = body sh\<rparr>"

text \<open>Assigning a column (\<^verbatim>\<open>df[c] = ...\<close>): an existing column keeps its place and
  takes the new dtype, a new one is appended; every row gets its new cell.\<close>

definition assign :: "string \<Rightarrow> dtype \<Rightarrow> (row \<Rightarrow> cell) \<Rightarrow> frame \<Rightarrow> frame" where
  "assign c ty g f =
     \<lparr>columns = (if c \<in> set (column_names f)
                 then map (\<lambda>(n, t). if n = c then (n, ty) else (n, t)) (columns f)
                 else columns f @ [(c, ty)]),
      rows = map (\<lambda>r. r(c := g r)) (rows f)\<rparr>"

text \<open>Reading numbers: pandas' sums skip blanks.\<close>

fun as_num :: "cell \<Rightarrow> rat" where
  "as_num (Num n) = n"
| "as_num c = 0"

definition col_sum :: "string \<Rightarrow> row list \<Rightarrow> rat" where
  "col_sum c rs = sum_list (map (\<lambda>r. as_num (r c)) rs)"

definition row_sum :: "string list \<Rightarrow> row \<Rightarrow> rat" where
  "row_sum cs r = sum_list (map (\<lambda>c. as_num (r c)) cs)"

text \<open>Python's \<^verbatim>\<open>int(x)\<close> and pandas' \<^verbatim>\<open>.astype(int)\<close> drop the fractional part of a
  number: they round toward zero. The format \<^verbatim>\<open>{x:,.0f}\<close> prints the nearest whole
  number, and the even one of the two when \<open>x\<close> lies halfway.\<close>

definition trunc :: "rat \<Rightarrow> int" where
  "trunc x = (if 0 \<le> x then \<lfloor>x\<rfloor> else \<lceil>x\<rceil>)"

definition format_0f :: "rat \<Rightarrow> int" where
  "format_0f x =
     (let n = \<lfloor>x\<rfloor>; d = x - of_int n
      in if d < 1 / 2 then n else if 1 / 2 < d then n + 1 else if even n then n else n + 1)"

text \<open>A number is whole when truncation loses nothing.\<close>

definition whole :: "rat \<Rightarrow> bool" where
  "whole x = (of_int (trunc x) = x)"

section \<open>Date normalization (lines 17 to 28)\<close>

fun to_datetime :: "date_format \<Rightarrow> cell \<Rightarrow> cell" where
  "to_datetime fmt (Text s) = (case strptime fmt s of None \<Rightarrow> NaN | Some d \<Rightarrow> Stamp (midnight d))"
| "to_datetime fmt (Stamp t) = Stamp t"
| "to_datetime fmt (Num n) = NaN"
| "to_datetime fmt NaN = NaN"

definition parse_dates :: "date_format \<Rightarrow> frame \<Rightarrow> frame" where
  "parse_dates fmt f = assign ''Date'' Datetime (\<lambda>r. to_datetime fmt (r ''Date'')) f"

definition dropna_Date :: "frame \<Rightarrow> frame" where
  "dropna_Date f = f\<lparr>rows := filter (\<lambda>r. r ''Date'' \<noteq> NaN) (rows f)\<rparr>"

fun strip_time :: "cell \<Rightarrow> cell" where
  "strip_time (Stamp t) = Stamp (midnight (ts_date t))"
| "strip_time c = c"

text \<open>Lines 17 to 22, the token sheet: parse, drop, strip the time, convert back.\<close>

definition normalize_tokens :: "frame \<Rightarrow> frame" where
  "normalize_tokens f =
     assign ''Date'' Datetime (\<lambda>r. strip_time (r ''Date''))
       (dropna_Date (parse_dates Fmt_mdY f))"

text \<open>Lines 25 to 28, the wallet, referral and fee sheets: parse and drop, only when
  the sheet has a \<^verbatim>\<open>Date\<close> column.\<close>

definition normalize_dates :: "frame \<Rightarrow> frame" where
  "normalize_dates f =
     (if ''Date'' \<in> set (column_names f) then dropna_Date (parse_dates Fmt_Ymd f) else f)"

section \<open>Category detection (lines 30, 37 to 39 and 207)\<close>

text \<open>\<^verbatim>\<open>select_dtypes(include="number").columns\<close>, and the test
  \<^verbatim>\<open>is_numeric_dtype(df[col])\<close>: the columns of numeric dtype, in column order.\<close>

definition numeric_columns :: "frame \<Rightarrow> string list" where
  "numeric_columns f = map fst (filter (\<lambda>(c, t). t = Number) (columns f))"

definition detect :: "string list \<Rightarrow> frame \<Rightarrow> string list" where
  "detect excl f = filter (\<lambda>c. c \<notin> set excl) (numeric_columns f)"

definition dtype_of :: "frame \<Rightarrow> string \<Rightarrow> dtype" where
  "dtype_of f c = (case map_of (columns f) c of Some t \<Rightarrow> t | None \<Rightarrow> Object)"

section \<open>Window filter (lines 36, 72, 114, 158 and 200)\<close>

text \<open>\<^verbatim>\<open>col >= "2025-01-01"\<close> and \<^verbatim>\<open>col > "2024-12-31"\<close> compare each timestamp
  of the column with the midnight of the day; a missing value compares false.
  \<^verbatim>\<open>df[mask].copy()\<close> is a new frame with the rows of the mask.\<close>

definition on_or_after :: "date \<Rightarrow> cell \<Rightarrow> bool" where
  "on_or_after d c = (case c of Stamp t \<Rightarrow> ts_le (midnight d) t | _ \<Rightarrow> False)"

definition after :: "date \<Rightarrow> cell \<Rightarrow> bool" where
  "after d c = (case c of Stamp t \<Rightarrow> ts_less (midnight d) t | _ \<Rightarrow> False)"

definition select_rows :: "(row \<Rightarrow> bool) \<Rightarrow> frame \<Rightarrow> frame" where
  "select_rows p f = f\<lparr>rows := filter p (rows f)\<rparr>"

section \<open>Monthly aggregation\<close>

definition month_of :: "cell \<Rightarrow> nat" where
  "month_of c = (case c of Stamp t \<Rightarrow> month_ord (ts_date t) | _ \<Rightarrow> 0)"

text \<open>\<^verbatim>\<open>col.dt.to_period("M").dt.to_timestamp()\<close>: the first day of the month.\<close>

definition to_month :: "cell \<Rightarrow> cell" where
  "to_month c = (case c of Stamp t \<Rightarrow> Stamp (midnight (month_start (month_ord (ts_date t)))) | _ \<Rightarrow> NaN)"

definition with_Month :: "frame \<Rightarrow> frame" where
  "with_Month f = assign ''Month'' Datetime (\<lambda>r. to_month (r ''Date'')) f"

text \<open>Rows whose key is missing belong to no group.\<close>

definition stamped :: "string \<Rightarrow> row list \<Rightarrow> row list" where
  "stamped key rs = filter (\<lambda>r. case r key of Stamp t \<Rightarrow> True | _ \<Rightarrow> False) rs"

definition in_month :: "string \<Rightarrow> nat \<Rightarrow> row list \<Rightarrow> row list" where
  "in_month key k rs = filter (\<lambda>r. month_of (r key) = k) rs"

text \<open>The row of one month of an aggregate: the month under the key column and the
  sum of each summed column over the rows of the group.\<close>

definition bucket :: "string \<Rightarrow> nat \<Rightarrow> string list \<Rightarrow> row list \<Rightarrow> row" where
  "bucket key k cs rs =
     (\<lambda>c. if c = key then Stamp (midnight (month_start k))
          else if c \<in> set cs then Num (col_sum c rs) else NaN)"

text \<open>\<^verbatim>\<open>df.groupby("Month")[cs].sum().reset_index()\<close>. The \<^verbatim>\<open>Month\<close> column holds
  firsts of months, so the groups are the month ordinals that occur, in ascending
  order: a month without a row has no group.\<close>

definition group_months :: "string \<Rightarrow> row list \<Rightarrow> nat list" where
  "group_months key rs = sort (remdups (map (\<lambda>r. month_of (r key)) rs))"

definition groupby_Month_sum :: "string list \<Rightarrow> frame \<Rightarrow> frame" where
  "groupby_Month_sum cs f =
     (let rs = stamped ''Month'' (rows f) in
      \<lparr>columns = (''Month'', Datetime) # map (\<lambda>c. (c, dtype_of f c)) cs,
       rows = map (\<lambda>k. bucket ''Month'' k cs (in_month ''Month'' k rs)) (group_months ''Month'' rs)\<rparr>)"

text \<open>\<^verbatim>\<open>df.resample("MS", on="Date").sum(numeric_only=True).reset_index()\<close>: one bin
  for every month from the month of the earliest row to the month of the latest, each
  with the sums of the numeric columns; the sum of an empty bin is 0.\<close>

definition month_range :: "nat list \<Rightarrow> nat list" where
  "month_range ks = (case ks of [] \<Rightarrow> [] | k # ks' \<Rightarrow> [fold min ks' k ..< Suc (fold max ks' k)])"

definition resample_MS_sum :: "frame \<Rightarrow> frame" where
  "resample_MS_sum f =
     (let cs = numeric_columns f; rs = stamped ''Date'' (rows f) in
      \<lparr>columns = (''Date'', Datetime) # map (\<lambda>c. (c, Number)) cs,
       rows = map (\<lambda>k. bucket ''Date'' k cs (in_month ''Date'' k rs))
                (month_range (map (\<lambda>r. month_of (r ''Date'')) rs))\<rparr>)"

section \<open>Pivoting and totals\<close>

text \<open>\<^verbatim>\<open>df.melt(id_vars=i, value_vars=cs, var_name=v, value_name=n)\<close> stacks the
  value columns: all rows for the first value column, then all rows for the second,
  and so on.\<close>

definition long_row :: "string \<Rightarrow> string \<Rightarrow> string \<Rightarrow> string \<Rightarrow> row \<Rightarrow> row" where
  "long_row i v n c r = (\<lambda>x. NaN)(i := r i, v := Text c, n := r c)"

definition melt :: "string \<Rightarrow> string list \<Rightarrow> string \<Rightarrow> string \<Rightarrow> frame \<Rightarrow> frame" where
  "melt i cs v n f =
     \<lparr>columns = [(i, dtype_of f i), (v, Object),
                 (n, if list_all (\<lambda>c. dtype_of f c = Number) cs then Number else Object)],
      rows = concat (map (\<lambda>c. map (long_row i v n c) (rows f)) cs)\<rparr>"

text \<open>\<^verbatim>\<open>df[cs].sum()\<close>: the total of each column, as a series indexed by column name;
  \<^verbatim>\<open>.astype(int)\<close> on such a series; and the sum of a series.\<close>

definition totals :: "string list \<Rightarrow> frame \<Rightarrow> (string \<times> rat) list" where
  "totals cs f = map (\<lambda>c. (c, col_sum c (rows f))) cs"

definition astype_int :: "(string \<times> rat) list \<Rightarrow> (string \<times> int) list" where
  "astype_int s = map (\<lambda>(c, x). (c, trunc x)) s"

definition series_sum :: "(string \<times> 'a::comm_monoid_add) list \<Rightarrow> 'a" where
  "series_sum s = sum_list (map snd s)"

section \<open>The datasets of \<^verbatim>\<open>create_figures\<close>\<close>

text \<open>Each dataset of \<^verbatim>\<open>create_figures\<close> is a function of the cleaned frame it is
  computed from, under the name the script gives it.\<close>

subsection \<open>Tokens (lines 36 to 46)\<close>

definition tsdf :: "frame \<Rightarrow> frame" where
  "tsdf tokens = select_rows (\<lambda>r. on_or_after (Date 2025 1 1) (r ''Date'')) tokens"

definition token_source_cols :: "frame \<Rightarrow> string list" where
  "token_source_cols tokens = filter (\<lambda>c. c \<noteq> ''Total'') (numeric_columns (tsdf tokens))"

text \<open>Line 41 copies the month into \<^verbatim>\<open>Month\<close>; line 42 adds its display label,
  which no computation reads. Lines 44 and 45 compute \<^verbatim>\<open>Total\<close> only when the
  aggregate has no such column.\<close>

definition monthly_tokens :: "frame \<Rightarrow> frame" where
  "monthly_tokens tokens =
     (let m = assign ''Month'' Datetime (\<lambda>r. r ''Date'') (resample_MS_sum (tsdf tokens))
      in if ''Total'' \<notin> set (column_names m)
         then assign ''Total'' Number (\<lambda>r. Num (row_sum (token_source_cols tokens) r)) m
         else m)"

definition total_tokens :: "frame \<Rightarrow> rat" where
  "total_tokens tokens = col_sum ''Total'' (rows (monthly_tokens tokens))"

subsection \<open>Wallets (lines 72 to 82)\<close>

definition wallet_cols :: "string list" where
  "wallet_cols = [''Android'', ''iOS'', ''Web'']"

definition wallet_df_filtered :: "frame \<Rightarrow> frame" where
  "wallet_df_filtered wallets =
     with_Month (select_rows (\<lambda>r. after (Date 2024 12 31) (r ''Date'')) wallets)"

definition monthly_wallets :: "frame \<Rightarrow> frame" where
  "monthly_wallets wallets = groupby_Month_sum wallet_cols (wallet_df_filtered wallets)"

text \<open>Line 75: the sums of the three platform columns, converted to integers.\<close>

definition platform_totals :: "frame \<Rightarrow> (string \<times> int) list" where
  "platform_totals wallets = astype_int (totals wallet_cols (monthly_wallets wallets))"

definition wallets_melted :: "frame \<Rightarrow> frame" where
  "wallets_melted wallets = melt ''Month'' wallet_cols ''Platform'' ''Count'' (monthly_wallets wallets)"

subsection \<open>Referrals (lines 30, 31 and 114 to 148)\<close>

definition referral_sources_of :: "frame \<Rightarrow> string list" where
  "referral_sources_of referrals =
     map fst (filter (\<lambda>(c, t). c \<noteq> ''Date'' \<and> t = Number) (columns referrals))"

definition add_Referrals :: "string list \<Rightarrow> frame \<Rightarrow> frame" where
  "add_Referrals srcs referrals = assign ''Referrals'' Number (\<lambda>r. Num (row_sum srcs r)) referrals"

definition rdf :: "frame \<Rightarrow> frame" where
  "rdf referrals = with_Month (select_rows (\<lambda>r. on_or_after (Date 2025 1 1) (r ''Date'')) referrals)"

definition referral_by_source :: "string list \<Rightarrow> frame \<Rightarrow> frame" where
  "referral_by_source srcs referrals = groupby_Month_sum srcs (rdf referrals)"

text \<open>Line 117: the sums of the source columns, converted to integers.\<close>

definition referral_totals :: "string list \<Rightarrow> frame \<Rightarrow> (string \<times> int) list" where
  "referral_totals srcs referrals = astype_int (totals srcs (referral_by_source srcs referrals))"

definition referral_melted :: "string list \<Rightarrow> frame \<Rightarrow> frame" where
  "referral_melted srcs referrals =
     melt ''Month'' srcs ''Campaign'' ''Referrals'' (referral_by_source srcs referrals)"

definition referral_totals_by_month :: "string list \<Rightarrow> frame \<Rightarrow> frame" where
  "referral_totals_by_month srcs referrals =
     groupby_Month_sum [''Referrals''] (referral_melted srcs referrals)"

text \<open>Line 141: the labels above the bars, \<^verbatim>\<open>int(x)\<close> of each monthly total.\<close>

definition referral_labels :: "string list \<Rightarrow> frame \<Rightarrow> int list" where
  "referral_labels srcs referrals =
     map (\<lambda>r. trunc (as_num (r ''Referrals''))) (rows (referral_totals_by_month srcs referrals))"

definition referral_by_source_Total :: "string list \<Rightarrow> frame \<Rightarrow> frame" where
  "referral_by_source_Total srcs referrals =
     assign ''Total'' Number (\<lambda>r. Num (row_sum srcs r)) (referral_by_source srcs referrals)"

subsection \<open>Fees (lines 158 to 161)\<close>

definition fdf :: "frame \<Rightarrow> frame" where
  "fdf fees = with_Month (select_rows (\<lambda>r. after (Date 2024 12 31) (r ''Date'')) fees)"

definition monthly_fee :: "frame \<Rightarrow> frame" where
  "monthly_fee fees = groupby_Month_sum [''TxnFee(POL)''] (fdf fees)"

text \<open>Line 161: \<^verbatim>\<open>int(...)\<close> of the sum of the monthly fees.\<close>

definition total_fee :: "frame \<Rightarrow> int" where
  "total_fee fees = trunc (col_sum ''TxnFee(POL)'' (rows (monthly_fee fees)))"

subsection \<open>Total tokens by source (lines 172 and 173)\<close>

text \<open>The sums are taken over \<^verbatim>\<open>tokens_source_df\<close> itself, not over \<^verbatim>\<open>tsdf\<close>.\<close>

definition total_tokens_by_source :: "frame \<Rightarrow> (string \<times> rat) list" where
  "total_tokens_by_source tokens = totals (token_source_cols tokens) tokens"

subsection \<open>Monthly tokens by source (lines 198 to 211)\<close>

text \<open>The second \<^verbatim>\<open>tsdf\<close>: the copy of line 198 is converted again (the column is a
  datetime column already, which the conversion returns as it is), filtered, given the
  month of each row and sorted by it (a stable sort).
  The categorical \<^verbatim>\<open>Month\<close> label is the text of the month, one label per month, in
  month order; the embedding keeps the month itself in its place.\<close>

definition sort_by_Month_dt :: "frame \<Rightarrow> frame" where
  "sort_by_Month_dt f = f\<lparr>rows := sort_key (\<lambda>r. month_of (r ''Month_dt'')) (rows f)\<rparr>"

definition pie_tsdf :: "frame \<Rightarrow> frame" where
  "pie_tsdf tokens =
     sort_by_Month_dt
       (assign ''Month'' Object (\<lambda>r. r ''Month_dt'')
         (assign ''Month_dt'' Datetime (\<lambda>r. to_month (r ''Date''))
           (dropna_Date (select_rows (\<lambda>r. on_or_after (Date 2025 1 1) (r ''Date''))
             (assign ''Date'' Datetime (\<lambda>r. r ''Date'') tokens)))))"

definition pie_token_source_cols :: "frame \<Rightarrow> string list" where
  "pie_token_source_cols tokens =
     map fst (filter (\<lambda>(c, t). c \<notin> set [''Date'', ''Month_dt'', ''Month'', ''Total''] \<and> t = Number)
                (columns (pie_tsdf tokens)))"

definition melted :: "frame \<Rightarrow> frame" where
  "melted tokens = melt ''Month'' (pie_token_source_cols tokens) ''Source'' ''Tokens'' (pie_tsdf tokens)"

definition text_of :: "cell \<Rightarrow> string option" where
  "text_of c = (case c of Text s \<Rightarrow> Some s | _ \<Rightarrow> None)"

text \<open>\<^verbatim>\<open>groupby(["Month", "Source"], observed=True).sum().reset_index()\<close>: one row for
  each month and source that occur together, months in order, sources in the order of
  their names.\<close>

definition groupby_Month_Source_sum :: "frame \<Rightarrow> frame" where
  "groupby_Month_Source_sum f =
     (let rs = stamped ''Month'' (rows f) in
      \<lparr>columns = [(''Month'', Object), (''Source'', Object), (''Tokens'', dtype_of f ''Tokens'')],
       rows = concat (map (\<lambda>k.
                map (\<lambda>s. (\<lambda>x. NaN)
                       (''Month'' := Stamp (midnight (month_start k)),
                        ''Source'' := Text s,
                        ''Tokens'' := Num (col_sum ''Tokens''
                            (filter (\<lambda>r. r ''Source'' = Text s) (in_month ''Month'' k rs)))))
                  (sort (remdups (List.map_filter (\<lambda>r. text_of (r ''Source''))
                                   (in_month ''Month'' k rs)))))
                (group_months ''Month'' rs))\<rparr>)"

definition monthly_data :: "frame \<Rightarrow> frame" where
  "monthly_data tokens = groupby_Month_Source_sum (melted tokens)"

text \<open>The categories of \<^verbatim>\<open>Month\<close>: the months of the sorted rows, each once.\<close>

definition months :: "frame \<Rightarrow> nat list" where
  "months tokens = remdups (map (\<lambda>r. month_of (r ''Month_dt'')) (rows (pie_tsdf tokens)))"

definition month_totals :: "frame \<Rightarrow> (nat \<times> rat) list" where
  "month_totals tokens =
     map (\<lambda>k. (k, col_sum ''Tokens'' (in_month ''Month'' k (rows (monthly_data tokens)))))
       (group_months ''Month'' (stamped ''Month'' (rows (monthly_data tokens))))"

text \<open>Lines 221 to 248: the total printed under the pie of each month, \<^verbatim>\<open>int(...)\<close> of
  the sum of the rows of that month; and line 251, the total of the title.\<close>

definition pie_annotations :: "frame \<Rightarrow> (nat \<times> int) list" where
  "pie_annotations tokens =
     map (\<lambda>k. (k, trunc (col_sum ''Tokens'' (in_month ''Month'' k (rows (monthly_data tokens))))))
       (months tokens)"

definition pies_total :: "frame \<Rightarrow> int" where
  "pies_total tokens = trunc (col_sum ''Tokens'' (rows (monthly_data tokens)))"

section \<open>Loading and cleaning (lines 10 to 31)\<close>

text \<open>
  The script keeps its frames in module variables and changes them in place, so the
  frames live in a store of objects; a reference is the position of an object in the
  store. \<^verbatim>\<open>df\<close> maps each stripped sheet name to the object \<^verbatim>\<open>read_excel\<close> made for
  that sheet, and \<^verbatim>\<open>referral_df\<close>, \<^verbatim>\<open>wallet_df\<close> and \<^verbatim>\<open>fee_df\<close> are further names
  for three of those objects. Line 16 reads the workbook a second time and makes a new
  object for the token sheet. An uncaught exception ends the script: it is the
  \<open>Inl\<close> result.
\<close>

datatype error = KeyError string | ValueError string | TypeError string

type_synonym workbook = "(string \<times> sheet) list"

type_synonym store = "frame list"

definition empty_frame :: frame where
  "empty_frame = \<lparr>columns = [], rows = []\<rparr>"

definition deref :: "store \<Rightarrow> nat \<Rightarrow> frame" where
  "deref h p = (if p < length h then h ! p else empty_frame)"

text \<open>A new object, and a statement that changes the object at \<open>p\<close> in place.\<close>

definition alloc :: "frame \<Rightarrow> store \<Rightarrow> nat \<times> store" where
  "alloc f h = (length h, h @ [f])"

definition update_frame :: "nat \<Rightarrow> (frame \<Rightarrow> frame) \<Rightarrow> store \<Rightarrow> store" where
  "update_frame p g h = h[p := g (deref h p)]"

text \<open>A later store keeps a store when every object of the earlier one is still there,
  unchanged.\<close>

definition keeps :: "store \<Rightarrow> store \<Rightarrow> bool" where
  "keeps h h' = (length h \<le> length h' \<and> take (length h) h' = h)"

record env =
  heap :: store
  df :: "string \<Rightarrow> nat option"
  referral_df :: nat
  wallet_df :: nat
  fee_df :: nat
  tokens_source_df :: nat
  referral_sources :: "string list"

text \<open>\<^verbatim>\<open>str.strip()\<close> removes leading and trailing whitespace.\<close>

definition is_space :: "char \<Rightarrow> bool" where
  "is_space c = (let n = (of_char c :: nat) in (9 \<le> n \<and> n \<le> 13) \<or> (28 \<le> n \<and> n \<le> 32))"

definition strip :: "string \<Rightarrow> string" where
  "strip s = rev (dropWhile is_space (rev (dropWhile is_space s)))"

text \<open>Line 10: every sheet is read into a new object, and the dictionary is keyed by
  the stripped sheet names (a later sheet replaces an earlier one of the same key).\<close>

fun read_excel_all :: "workbook \<Rightarrow> store \<Rightarrow> (string \<Rightarrow> nat option)
    \<Rightarrow> store \<times> (string \<Rightarrow> nat option)" where
  "read_excel_all [] h d = (h, d)"
| "read_excel_all ((k, sh) # wb) h d =
     read_excel_all wb (h @ [read_sheet sh]) (d(strip k \<mapsto> length h))"

text \<open>Lines 17 to 22 change the token object, the loop of lines 25 to 28 the wallet,
  referral and fee objects, and line 31 adds the column \<^verbatim>\<open>Referrals\<close> to the referral
  object.\<close>

definition clean :: "nat \<Rightarrow> nat \<Rightarrow> nat \<Rightarrow> nat \<Rightarrow> store \<Rightarrow> store" where
  "clean tp wp rp fp h =
     fold (\<lambda>p. update_frame p normalize_dates) [wp, rp, fp] (update_frame tp normalize_tokens h)"

definition load :: "workbook \<Rightarrow> error + env" where
  "load wb =
     (case read_excel_all wb [] Map.empty of (h, d) \<Rightarrow>
      (case d ''Referrals'' of None \<Rightarrow> Inl (KeyError ''Referrals'') | Some rp \<Rightarrow>
      (case d ''Wallets Created'' of None \<Rightarrow> Inl (KeyError ''Wallets Created'') | Some wp \<Rightarrow>
      (case d ''POL Data'' of None \<Rightarrow> Inl (KeyError ''POL Data'') | Some fp \<Rightarrow>
      (case map_of wb ''Tokens per source'' of
         None \<Rightarrow> Inl (ValueError ''Worksheet named Tokens per source not found'')
       | Some sh \<Rightarrow>
           if ''Date'' \<notin> set (header sh) then Inl (KeyError ''Date'')
           else
             (case alloc (read_sheet sh) h of (tp, h1) \<Rightarrow>
              (let h2 = clean tp wp rp fp h1;
                   srcs = referral_sources_of (deref h2 rp);
                   h3 = update_frame rp (add_Referrals srcs) h2
               in Inr \<lparr>heap = h3, df = d, referral_df = rp, wallet_df = wp, fee_df = fp,
                       tokens_source_df = tp, referral_sources = srcs\<rparr>)))))))"

section \<open>\<^verbatim>\<open>create_figures\<close>\<close>

text \<open>
  \<^verbatim>\<open>create_figures\<close> reads the four cleaned objects. Every frame it builds (a selection
  with \<^verbatim>\<open>.copy()\<close>, an aggregate, a melted frame) is a new object; the columns it adds
  (\<^verbatim>\<open>Month\<close>, \<^verbatim>\<open>Total\<close>) are added in place to objects it has built itself. Each
  block of the function is a store transformer that returns the data of its charts.
\<close>

definition token_charts :: "nat \<Rightarrow> store \<Rightarrow> (frame \<times> rat \<times> string list) \<times> store" where
  "token_charts tp h =
     (case alloc (select_rows (\<lambda>r. on_or_after (Date 2025 1 1) (r ''Date'')) (deref h tp)) h of
        (ts, h1) \<Rightarrow>
     (let cols = filter (\<lambda>c. c \<noteq> ''Total'') (numeric_columns (deref h1 ts)) in
      (case alloc (resample_MS_sum (deref h1 ts)) h1 of (mt, h2) \<Rightarrow>
     (let h3 = update_frame mt (assign ''Month'' Datetime (\<lambda>r. r ''Date'')) h2;
          h4 = update_frame mt
                 (\<lambda>m. if ''Total'' \<notin> set (column_names m)
                      then assign ''Total'' Number (\<lambda>r. Num (row_sum cols r)) m else m) h3
      in ((deref h4 mt, col_sum ''Total'' (rows (deref h4 mt)), cols), h4)))))"

definition wallet_charts :: "nat \<Rightarrow> store \<Rightarrow> (frame \<times> (string \<times> int) list) \<times> store" where
  "wallet_charts wp h =
     (case alloc (select_rows (\<lambda>r. after (Date 2024 12 31) (r ''Date'')) (deref h wp)) h of
        (wsel, h1) \<Rightarrow>
     (let h2 = update_frame wsel (assign ''Month'' Datetime (\<lambda>r. to_month (r ''Date''))) h1 in
      (case alloc (groupby_Month_sum wallet_cols (deref h2 wsel)) h2 of (mw, h3) \<Rightarrow>
     (let pt = astype_int (totals wallet_cols (deref h3 mw)) in
      (case alloc (melt ''Month'' wallet_cols ''Platform'' ''Count'' (deref h3 mw)) h3 of
        (wm, h4) \<Rightarrow> ((deref h4 wm, pt), h4))))))"

definition referral_charts ::
    "nat \<Rightarrow> string list \<Rightarrow> store
      \<Rightarrow> (frame \<times> frame \<times> int list \<times> (string \<times> int) list \<times> frame) \<times> store" where
  "referral_charts rp srcs h =
     (case alloc (select_rows (\<lambda>r. on_or_after (Date 2025 1 1) (r ''Date'')) (deref h rp)) h of
        (rd, h1) \<Rightarrow>
     (let h2 = update_frame rd (assign ''Month'' Datetime (\<lambda>r. to_month (r ''Date''))) h1 in
      (case alloc (groupby_Month_sum srcs (deref h2 rd)) h2 of (rb, h3) \<Rightarrow>
     (let rt = astype_int (totals srcs (deref h3 rb)) in
      (case alloc (melt ''Month'' srcs ''Campaign'' ''Referrals'' (deref h3 rb)) h3 of (rm, h4) \<Rightarrow>
      (case alloc (groupby_Month_sum [''Referrals''] (deref h4 rm)) h4 of (rtm, h5) \<Rightarrow>
     (let labels = map (\<lambda>r. trunc (as_num (r ''Referrals''))) (rows (deref h5 rtm));
          h6 = update_frame rb (assign ''Total'' Number (\<lambda>r. Num (row_sum srcs r))) h5
      in ((deref h6 rm, deref h6 rtm, labels, rt, deref h6 rb), h6))))))))"

definition fee_chart :: "nat \<Rightarrow> store \<Rightarrow> (frame \<times> int) \<times> store" where
  "fee_chart fp h =
     (case alloc (select_rows (\<lambda>r. after (Date 2024 12 31) (r ''Date'')) (deref h fp)) h of
        (fd, h1) \<Rightarrow>
     (let h2 = update_frame fd (assign ''Month'' Datetime (\<lambda>r. to_month (r ''Date''))) h1 in
      (case alloc (groupby_Month_sum [''TxnFee(POL)''] (deref h2 fd)) h2 of (mf, h3) \<Rightarrow>
        ((deref h3 mf, trunc (col_sum ''TxnFee(POL)'' (rows (deref h3 mf)))), h3))))"

definition pie_data ::
    "nat \<Rightarrow> store
      \<Rightarrow> (nat list \<times> frame \<times> (nat \<times> rat) list \<times> (nat \<times> int) list \<times> int) \<times> store" where
  "pie_data tp h =
     (case alloc (deref h tp) h of (t1, h1) \<Rightarrow>
     (let h2 = update_frame t1 (assign ''Date'' Datetime (\<lambda>r. r ''Date'')) h1 in
      (case alloc (dropna_Date (select_rows (\<lambda>r. on_or_after (Date 2025 1 1) (r ''Date''))
                      (deref h2 t1))) h2 of (t2, h3) \<Rightarrow>
     (let h4 = update_frame t2 (assign ''Month_dt'' Datetime (\<lambda>r. to_month (r ''Date''))) h3;
          h5 = update_frame t2 (assign ''Month'' Object (\<lambda>r. r ''Month_dt'')) h4 in
      (case alloc (sort_by_Month_dt (deref h5 t2)) h5 of (t3, h6) \<Rightarrow>
     (let ms = remdups (map (\<lambda>r. month_of (r ''Month_dt'')) (rows (deref h6 t3)));
          cols = map fst (filter
                   (\<lambda>(c, t). c \<notin> set [''Date'', ''Month_dt'', ''Month'', ''Total''] \<and> t = Number)
                   (columns (deref h6 t3))) in
      (case alloc (melt ''Month'' cols ''Source'' ''Tokens'' (deref h6 t3)) h6 of (ml, h7) \<Rightarrow>
      (case alloc (groupby_Month_Source_sum (deref h7 ml)) h7 of (md, h8) \<Rightarrow>
        ((ms, deref h8 md,
          map (\<lambda>k. (k, col_sum ''Tokens'' (in_month ''Month'' k (rows (deref h8 md)))))
            (group_months ''Month'' (stamped ''Month'' (rows (deref h8 md)))),
          map (\<lambda>k. (k, trunc (col_sum ''Tokens'' (in_month ''Month'' k (rows (deref h8 md)))))) ms,
          trunc (col_sum ''Tokens'' (rows (deref h8 md)))), h8)))))))))"

text \<open>
  Each figure is represented by the data it is drawn from and the numbers of its
  title and labels: the token total is printed with \<^verbatim>\<open>{total_tokens:,.0f}\<close> (lines 52
  and 62), the total of the tokens by source and the totals of the pies with
  \<^verbatim>\<open>int(...)\<close> (lines 181, 241 and 251). The statements that can
  raise are a column that is missing (\<^verbatim>\<open>KeyError\<close>), a cell that is not a number
  under a declared column that is summed and converted to an integer, and
  \<^verbatim>\<open>make_subplots(rows=1, cols=len(months))\<close>, which rejects a number of columns
  that is not positive (\<^verbatim>\<open>ValueError\<close>). The function returns its figures; the store
  it leaves behind is returned with them.
\<close>

record figures =
  token_bar :: "frame \<times> int"
  token_line :: "frame \<times> int"
  wallet_pie :: "(string \<times> int) list \<times> int"
  wallet_bar :: "frame \<times> (string \<times> int) list \<times> int"
  referral_bar :: "frame \<times> frame \<times> int list \<times> int"
  referral_line :: frame
  fee_line :: "frame \<times> int"
  token_source_bar :: "(string \<times> rat) list \<times> int"
  fig_pies :: "nat list \<times> frame \<times> (nat \<times> int) list \<times> int"

definition has_column :: "frame \<Rightarrow> string \<Rightarrow> bool" where
  "has_column f c = (c \<in> set (column_names f))"

definition summable :: "string list \<Rightarrow> row list \<Rightarrow> bool" where
  "summable cs rs = list_all (\<lambda>r. list_all (\<lambda>c. numeric_cell (r c)) cs) rs"

definition create_figures :: "env \<Rightarrow> error + figures \<times> store" where
  "create_figures e =
     (let tp = tokens_source_df e; wp = wallet_df e; rp = referral_df e; fp = fee_df e;
          srcs = referral_sources e
      in
      (case token_charts tp (heap e) of ((mt, tok_total, cols), h1) \<Rightarrow>
        if \<not> has_column (deref h1 wp) ''Date'' then Inl (KeyError ''Date'')
        else (case find (\<lambda>c. \<not> has_column (deref h1 wp) c) wallet_cols of
          Some c \<Rightarrow> Inl (KeyError c)
        | None \<Rightarrow>
        if \<not> summable wallet_cols (rows (wallet_df_filtered (deref h1 wp)))
        then Inl (TypeError ''Wallets Created'')
        else
      (case wallet_charts wp h1 of ((wm, pt), h2) \<Rightarrow>
        if \<not> has_column (deref h2 rp) ''Date'' then Inl (KeyError ''Date'')
        else
      (case referral_charts rp srcs h2 of ((rm, rtm, labels, rt, rb), h3) \<Rightarrow>
        if \<not> has_column (deref h3 fp) ''Date'' then Inl (KeyError ''Date'')
        else if \<not> has_column (deref h3 fp) ''TxnFee(POL)'' then Inl (KeyError ''TxnFee(POL)'')
        else if \<not> summable [''TxnFee(POL)''] (rows (fdf (deref h3 fp))) then Inl (TypeError ''POL Data'')
        else
      (case fee_chart fp h3 of ((mf, tf), h4) \<Rightarrow>
      (let by_source = totals cols (deref h4 tp) in
      (case pie_data tp h4 of ((ms, md, mtot, ann, ptot), h5) \<Rightarrow>
        if ms = [] then Inl (ValueError ''cols must be greater than 0'')
        else Inr
          (\<lparr>token_bar = (mt, format_0f tok_total),
            token_line = (mt, format_0f tok_total),
            wallet_pie = (pt, series_sum pt),
            wallet_bar = (wm, pt, series_sum pt),
            referral_bar = (rm, rtm, labels, series_sum rt),
            referral_line = rb,
            fee_line = (mf, tf),
            token_source_bar = (by_source, trunc (series_sum by_source)),
            fig_pies = (ms, md, ann, ptot)\<rparr>, h5)))))))))"

text \<open>Line 259: the module runs \<^verbatim>\<open>create_figures\<close> once, after loading.\<close>

definition main :: "workbook \<Rightarrow> error + figures" where
  "main wb =
     (case load wb of
        Inl err \<Rightarrow> Inl err
      | Inr e \<Rightarrow> (case create_figures e of Inl err \<Rightarrow> Inl err | Inr (figs, h) \<Rightarrow> Inr figs))"

section \<open>Example sheets\<close>

text \<open>Small sheets on which the theorems below are instantiated. A row of a sheet is
  given by its cells; every other cell is blank.\<close>

definition row_of :: "(string \<times> cell) list \<Rightarrow> row" where
  "row_of kvs = (\<lambda>c. case map_of kvs c of Some v \<Rightarrow> v | None \<Rightarrow> NaN)"

text \<open>Five referral records, two of them with a date text that does not parse
  under \<^verbatim>\<open>"%Y-%m-%d"\<close>; the others lie in January and March 2025.\<close>

definition referral_sheet :: sheet where
  "referral_sheet =
     \<lparr>header = [''Date'', ''Twitter'', ''Discord''],
      body = [row_of [(''Date'', Text ''2025-01-10''), (''Twitter'', Num 4), (''Discord'', Num 1)],
              row_of [(''Date'', Text ''not a date''), (''Twitter'', Num 9), (''Discord'', Num 9)],
              row_of [(''Date'', Text ''2025-01-25''), (''Twitter'', Num 2), (''Discord'', Num 0)],
              row_of [(''Date'', Text ''10-02-2025''), (''Twitter'', Num 7), (''Discord'', Num 7)],
              row_of [(''Date'', Text ''2025-03-03''), (''Twitter'', Num 1), (''Discord'', Num 5)]]\<rparr>"

text \<open>Three referral records; the second has the text \<^verbatim>\<open>unknown\<close> for its date and
  under \<^verbatim>\<open>Twitter\<close>.\<close>

definition referral_sheet_mixed :: sheet where
  "referral_sheet_mixed =
     \<lparr>header = [''Date'', ''Twitter'', ''Discord''],
      body = [row_of [(''Date'', Text ''2025-01-10''), (''Twitter'', Num 4), (''Discord'', Num 1)],
              row_of [(''Date'', Text ''unknown''), (''Twitter'', Text ''unknown''), (''Discord'', Num 9)],
              row_of [(''Date'', Text ''2025-03-03''), (''Twitter'', Num 1), (''Discord'', Num 5)]]\<rparr>"

text \<open>Wallet records in January and March 2025 only.\<close>

definition wallet_sheet :: sheet where
  "wallet_sheet =
     \<lparr>header = [''Date'', ''Android'', ''iOS'', ''Web''],
      body = [row_of [(''Date'', Text ''2025-01-05''), (''Android'', Num 3), (''iOS'', Num 1), (''Web'', Num 0)],
              row_of [(''Date'', Text ''2025-01-20''), (''Android'', Num 2), (''iOS'', Num 0), (''Web'', Num 1)],
              row_of [(''Date'', Text ''2025-03-01''), (''Android'', Num 0), (''iOS'', Num 0), (''Web'', Num 5)]]\<rparr>"

text \<open>A wallet sheet whose dates are date-time cells: one wallet created on
  31 December 2024 at 13:00, one on 2 January 2025.\<close>

definition wallet_sheet_timed :: sheet where
  "wallet_sheet_timed =
     \<lparr>header = [''Date'', ''Android'', ''iOS'', ''Web''],
      body = [row_of [(''Date'', Stamp (Timestamp (Date 2024 12 31) 46800)),
                      (''Android'', Num 4), (''iOS'', Num 0), (''Web'', Num 0)],
              row_of [(''Date'', Stamp (Timestamp (Date 2025 1 2) 0)),
                      (''Android'', Num 1), (''iOS'', Num 1), (''Web'', Num 1)]]\<rparr>"

text \<open>Token records of December 2024, January 2025 and March 2025, without and with
  a stored \<^verbatim>\<open>Total\<close> column (whose January value is not the sum of the sources).\<close>

definition token_sheet :: sheet where
  "token_sheet =
     \<lparr>header = [''Date'', ''Airdrop'', ''Staking''],
      body = [row_of [(''Date'', Text ''12-31-2024''), (''Airdrop'', Num 7), (''Staking'', Num 0)],
              row_of [(''Date'', Text ''01-15-2025''), (''Airdrop'', Num 3), (''Staking'', Num 2)],
              row_of [(''Date'', Text ''03-02-2025''), (''Airdrop'', Num 1), (''Staking'', Num 4)]]\<rparr>"

definition token_sheet_Total :: sheet where
  "token_sheet_Total =
     \<lparr>header = [''Date'', ''Airdrop'', ''Staking'', ''Total''],
      body = [row_of [(''Date'', Text ''01-15-2025''), (''Airdrop'', Num 3), (''Staking'', Num 2),
                      (''Total'', Num 100)],
              row_of [(''Date'', Text ''03-02-2025''), (''Airdrop'', Num 1), (''Staking'', Num 4),
                      (''Total'', Num 5)]]\<rparr>"

text \<open>A token sheet with its header row and no record.\<close>

definition token_sheet_empty :: sheet where
  "token_sheet_empty = \<lparr>header = [''Date'', ''Airdrop'', ''Staking''], body = []\<rparr>"

text \<open>A wallet sheet with its header row and no record.\<close>

definition wallet_sheet_empty :: sheet where
  "wallet_sheet_empty = \<lparr>header = [''Date'', ''Android'', ''iOS'', ''Web''], body = []\<rparr>"

definition fee_sheet :: sheet where
  "fee_sheet =
     \<lparr>header = [''Date'', ''TxnFee(POL)''],
      body = [row_of [(''Date'', Text ''2025-01-07''), (''TxnFee(POL)'', Num 12)],
              row_of [(''Date'', Text ''2025-02-09''), (''TxnFee(POL)'', Num 30)]]\<rparr>"

text \<open>Fees with a fractional part: 0.5 in January and 0.7 in February 2025.\<close>

definition fee_sheet_fractional :: sheet where
  "fee_sheet_fractional =
     \<lparr>header = [''Date'', ''TxnFee(POL)''],
      body = [row_of [(''Date'', Text ''2025-01-07''), (''TxnFee(POL)'', Num (1 / 2))],
              row_of [(''Date'', Text ''2025-02-09''), (''TxnFee(POL)'', Num (7 / 10))]]\<rparr>"

text \<open>Workbooks: a complete one; one whose token sheet has no record; one whose
  wallet sheet has no record; one whose
  referral, wallet and fee sheet names carry whitespace; one whose token sheet name
  carries whitespace; and one without a referral sheet.\<close>

definition workbook_ok :: workbook where
  "workbook_ok = [(''Referrals'', referral_sheet), (''Wallets Created'', wallet_sheet),
                  (''POL Data'', fee_sheet), (''Tokens per source'', token_sheet)]"

definition workbook_no_tokens :: workbook where
  "workbook_no_tokens = [(''Referrals'', referral_sheet), (''Wallets Created'', wallet_sheet),
                         (''POL Data'', fee_sheet), (''Tokens per source'', token_sheet_empty)]"

definition workbook_no_wallets :: workbook where
  "workbook_no_wallets = [(''Referrals'', referral_sheet), (''Wallets Created'', wallet_sheet_empty),
                          (''POL Data'', fee_sheet), (''Tokens per source'', token_sheet)]"

definition workbook_padded :: workbook where
  "workbook_padded = [('' Referrals'', referral_sheet), (''Wallets Created '', wallet_sheet),
                      ('' POL Data '', fee_sheet), (''Tokens per source'', token_sheet)]"

definition workbook_padded_tokens :: workbook where
  "workbook_padded_tokens = [(''Referrals'', referral_sheet), (''Wallets Created'', wallet_sheet),
                             (''POL Data'', fee_sheet), (''Tokens per source '', token_sheet)]"

definition workbook_no_referrals :: workbook where
  "workbook_no_referrals = [(''Wallets Created'', wallet_sheet), (''POL Data'', fee_sheet),
                            (''Tokens per source'', token_sheet)]"

section \<open>Truncation\<close>

lemma trunc_of_int [simp]: "trunc (of_int n) = n"
  by (simp add: trunc_def)

lemma trunc_numeral [simp]: "trunc 0 = 0" "trunc 1 = 1" "trunc (numeral n) = numeral n"
  by (simp_all add: trunc_def)

lemma floor_numeral_divide:
  "\<lfloor>numeral a / numeral b :: rat\<rfloor> = numeral a div numeral b"
  using floor_divide_of_int_eq [of "numeral a" "numeral b", where ?'a = rat] by simp

lemma ceiling_minus_numeral_divide:
  "\<lceil>- (numeral a / numeral b) :: rat\<rceil> = - (numeral a div numeral b)"
  by (simp add: ceiling_def floor_numeral_divide)

lemma trunc_numeral_divide [simp]: "trunc (numeral a / numeral b) = numeral a div numeral b"
  by (simp add: trunc_def floor_numeral_divide)

lemma whole_of_int [simp]: "whole (of_int n)"
  by (simp add: whole_def)

lemma whole_trunc: "whole x \<Longrightarrow> of_int (trunc x) = x"
  by (simp add: whole_def)

lemma whole_Ints: "whole x \<longleftrightarrow> x \<in> \<int>"
proof
  assume "whole x"
  then have "x = of_int (trunc x)" by (simp add: whole_def)
  then show "x \<in> \<int>" by (metis Ints_of_int)
next
  assume "x \<in> \<int>"
  then obtain n where "x = of_int n" by (auto elim: Ints_cases)
  then show "whole x" by simp
qed

lemma whole_sum_list: "list_all whole xs \<Longrightarrow> whole (sum_list xs)"
  by (induction xs) (simp_all add: whole_Ints)

lemma trunc_examples:
  "trunc (6 / 5) = 1" "trunc (- (6 / 5)) = - 1" "trunc 42 = 42"
  by (simp_all add: trunc_def floor_numeral_divide ceiling_minus_numeral_divide)

lemma format_0f_examples:
  "format_0f 10 = 10" "format_0f (6 / 5) = 1" "format_0f (5 / 2) = 2" "format_0f (7 / 2) = 4"
  by (simp_all add: format_0f_def Let_def floor_numeral_divide)

section \<open>Basic facts about frames\<close>

lemma rows_assign [simp]: "rows (assign c ty g f) = map (\<lambda>r. r(c := g r)) (rows f)"
  by (simp add: assign_def)

lemma retype_names:
  "map fst (map (\<lambda>(n, t). if n = c then (n, ty) else (n, t)) xs) = map fst xs"
  by (induction xs) auto

lemma column_names_assign:
  "column_names (assign c ty g f) =
     (if c \<in> set (column_names f) then column_names f else column_names f @ [c])"
  using retype_names [of c ty "columns f"] by (simp add: assign_def column_names_def)

lemma rows_select_rows [simp]: "rows (select_rows p f) = filter p (rows f)"
  by (simp add: select_rows_def)

lemma columns_select_rows [simp]: "columns (select_rows p f) = columns f"
  by (simp add: select_rows_def)

lemma rows_dropna_Date [simp]: "rows (dropna_Date f) = filter (\<lambda>r. r ''Date'' \<noteq> NaN) (rows f)"
  by (simp add: dropna_Date_def)

lemma columns_dropna_Date [simp]: "columns (dropna_Date f) = columns f"
  by (simp add: dropna_Date_def)

lemma retype_not_number:
  "ty \<noteq> Number \<Longrightarrow> (c, Number) \<notin> set (map (\<lambda>(n, t). if n = c then (n, ty) else (n, t)) xs)"
  by (induction xs) (auto split: if_splits)

lemma retype_other:
  "c \<noteq> d \<Longrightarrow> (c, t) \<in> set (map (\<lambda>(n, t). if n = d then (n, ty) else (n, t)) xs) \<longleftrightarrow> (c, t) \<in> set xs"
  by (induction xs) (auto split: if_splits)

lemma in_numeric_columns: "c \<in> set (numeric_columns f) \<longleftrightarrow> (c, Number) \<in> set (columns f)"
  by (force simp: numeric_columns_def)

lemma assigned_not_numeric:
  assumes "ty \<noteq> Number"
  shows "c \<notin> set (numeric_columns (assign c ty g f))"
proof (cases "c \<in> set (column_names f)")
  case True
  then show ?thesis
    using retype_not_number [OF assms, of c "columns f"]
    by (simp add: in_numeric_columns assign_def)
next
  case False
  then have "(c, Number) \<notin> set (columns f)"
    by (force simp: column_names_def)
  with False assms show ?thesis
    by (simp add: in_numeric_columns assign_def)
qed

lemma assign_keeps_other:
  "c \<noteq> d \<Longrightarrow> (c, t) \<in> set (columns (assign d ty g f)) \<longleftrightarrow> (c, t) \<in> set (columns f)"
  using retype_other [of c d t ty "columns f"] by (auto simp: assign_def)

section \<open>Facts about monthly aggregation\<close>

lemma month_ord_month_start [simp]: "month_ord (month_start k) = k"
  by (simp add: month_ord_def month_start_def)

lemma month_of_month_start [simp]: "month_of (Stamp (midnight (month_start k))) = k"
  by (simp add: month_of_def midnight_def)

lemma month_of_to_month [simp]: "month_of (to_month c) = month_of c"
  by (cases c) (simp_all add: to_month_def month_of_def midnight_def)

lemma sum_list_single_key:
  "distinct ks \<Longrightarrow> sum_list (map (\<lambda>k. if k = a then (v::'a::comm_monoid_add) else 0) ks) = (if a \<in> set ks then v else 0)"
  by (induction ks) auto

lemma sum_groups:
  fixes g :: "'a \<Rightarrow> 'b::comm_monoid_add"
  assumes "distinct ks" "key ` set rs \<subseteq> set ks"
  shows "sum_list (map (\<lambda>k. sum_list (map g (filter (\<lambda>r. key r = k) rs))) ks) = sum_list (map g rs)"
  using assms(2)
proof (induction rs)
  case Nil
  then show ?case by simp
next
  case (Cons r rs)
  have "(\<lambda>k. sum_list (map g (filter (\<lambda>r. key r = k) (r # rs)))) =
        (\<lambda>k. (if k = key r then g r else 0) + sum_list (map g (filter (\<lambda>r. key r = k) rs)))"
    by auto
  then have "sum_list (map (\<lambda>k. sum_list (map g (filter (\<lambda>r. key r = k) (r # rs)))) ks) =
        sum_list (map (\<lambda>k. if k = key r then g r else 0) ks)
        + sum_list (map (\<lambda>k. sum_list (map g (filter (\<lambda>r. key r = k) rs))) ks)"
    by (simp add: sum_list_addf)
  also have "\<dots> = g r + sum_list (map g rs)"
    using Cons assms(1) by (simp add: sum_list_single_key)
  finally show ?case by simp
qed

lemma sum_list_swap:
  fixes h :: "'a \<Rightarrow> 'b \<Rightarrow> 'c::comm_monoid_add"
  shows "sum_list (map (\<lambda>a. sum_list (map (h a) bs)) as) =
         sum_list (map (\<lambda>b. sum_list (map (\<lambda>a. h a b) as)) bs)"
proof (induction as)
  case Nil
  then show ?case by simp
next
  case (Cons a as)
  then show ?case by (simp add: sum_list_addf)
qed

lemma distinct_group_months [simp]: "distinct (group_months key rs)"
  by (simp add: group_months_def)

lemma sorted_group_months [simp]: "sorted (group_months key rs)"
  by (simp add: group_months_def)

lemma set_group_months [simp]: "set (group_months key rs) = (\<lambda>r. month_of (r key)) ` set rs"
  by (simp add: group_months_def)

lemma bucket_key [simp]: "bucket key k cs rs key = Stamp (midnight (month_start k))"
  by (simp add: bucket_def)

lemma bucket_col: "c \<noteq> key \<Longrightarrow> c \<in> set cs \<Longrightarrow> bucket key k cs rs c = Num (col_sum c rs)"
  by (simp add: bucket_def)

lemma as_num_bucket: "c \<noteq> key \<Longrightarrow> c \<in> set cs \<Longrightarrow> as_num (bucket key k cs rs c) = col_sum c rs"
  by (simp add: bucket_def)

lemma rows_groupby:
  "rows (groupby_Month_sum cs f) =
     map (\<lambda>k. bucket ''Month'' k cs (in_month ''Month'' k (stamped ''Month'' (rows f))))
       (group_months ''Month'' (stamped ''Month'' (rows f)))"
  by (simp add: groupby_Month_sum_def Let_def)

lemma col_sum_groupby:
  assumes "c \<noteq> ''Month''" "c \<in> set cs"
  shows "col_sum c (rows (groupby_Month_sum cs f)) = col_sum c (stamped ''Month'' (rows f))"
proof -
  let ?rs = "stamped ''Month'' (rows f)"
  have "col_sum c (rows (groupby_Month_sum cs f)) =
        sum_list (map (\<lambda>k. sum_list (map (\<lambda>r. as_num (r c)) (filter (\<lambda>r. month_of (r ''Month'') = k) ?rs)))
          (group_months ''Month'' ?rs))"
    using assms by (simp add: rows_groupby col_sum_def comp_def as_num_bucket in_month_def)
  also have "\<dots> = sum_list (map (\<lambda>r. as_num (r c)) ?rs)"
    by (rule sum_groups) simp_all
  finally show ?thesis by (simp add: col_sum_def)
qed

lemma stamped_with_Month:
  "stamped ''Month'' (rows (with_Month f)) =
     map (\<lambda>r. r(''Month'' := to_month (r ''Date''))) (stamped ''Date'' (rows f))"
proof -
  have "(case to_month c of Stamp t \<Rightarrow> True | _ \<Rightarrow> False) = (case c of Stamp t \<Rightarrow> True | _ \<Rightarrow> False)" for c
    by (cases c) (simp_all add: to_month_def)
  then show ?thesis
    by (simp add: with_Month_def stamped_def filter_map comp_def)
qed

lemma stamped_after: "stamped ''Date'' (filter (\<lambda>r. after d (r ''Date'')) rs) = filter (\<lambda>r. after d (r ''Date'')) rs"
  by (auto simp: stamped_def after_def split: cell.splits intro: filter_True)

lemma stamped_on_or_after:
  "stamped ''Date'' (filter (\<lambda>r. on_or_after d (r ''Date'')) rs) = filter (\<lambda>r. on_or_after d (r ''Date'')) rs"
  by (auto simp: stamped_def on_or_after_def split: cell.splits intro: filter_True)

lemma col_sum_map_upd: "c \<noteq> k \<Longrightarrow> col_sum c (map (\<lambda>r. r(k := g r)) rs) = col_sum c rs"
  by (simp add: col_sum_def comp_def)

section \<open>Date normalization\<close>

lemma to_datetime_Text_NaN: "to_datetime fmt (Text s) = NaN \<longleftrightarrow> strptime fmt s = None"
  by (simp split: option.splits)

lemma rows_parse_drop:
  "rows (dropna_Date (parse_dates fmt f)) =
     map (\<lambda>r. r(''Date'' := to_datetime fmt (r ''Date'')))
       (filter (\<lambda>r. to_datetime fmt (r ''Date'') \<noteq> NaN) (rows f))"
  by (simp add: parse_dates_def filter_map comp_def)

lemma rows_normalize_tokens:
  "rows (normalize_tokens f) =
     map (\<lambda>r. r(''Date'' := strip_time (to_datetime Fmt_mdY (r ''Date''))))
       (filter (\<lambda>r. to_datetime Fmt_mdY (r ''Date'') \<noteq> NaN) (rows f))"
  by (simp add: normalize_tokens_def rows_parse_drop comp_def del: rows_dropna_Date)

lemma rows_normalize_dates:
  "''Date'' \<in> set (column_names f) \<Longrightarrow>
   rows (normalize_dates f) =
     map (\<lambda>r. r(''Date'' := to_datetime Fmt_Ymd (r ''Date'')))
       (filter (\<lambda>r. to_datetime Fmt_Ymd (r ''Date'') \<noteq> NaN) (rows f))"
  by (simp add: normalize_dates_def rows_parse_drop del: rows_dropna_Date)


lemma parse_eval:
  "strptime Fmt_Ymd ''2025-01-10'' = Some (Date 2025 1 10)"
  "strptime Fmt_Ymd ''not a date'' = None"
  "strptime Fmt_Ymd ''2025-01-25'' = Some (Date 2025 1 25)"
  "strptime Fmt_Ymd ''10-02-2025'' = None"
  "strptime Fmt_Ymd ''2025-03-03'' = Some (Date 2025 3 3)"
  by (simp_all add: strptime_def make_date_def number_def digit_def days_in_month_def leap_year_def)


section \<open>Category detection\<close>

lemma filter_fst_filter:
  "filter (\<lambda>c. c \<notin> E) (map fst (filter (\<lambda>(c, t). t = Number) xs)) =
   map fst (filter (\<lambda>(c, t). t = Number \<and> c \<notin> E) xs)"
  by (induction xs) auto

lemma detect_eq: "detect excl f = map fst (filter (\<lambda>(c, t). t = Number \<and> c \<notin> set excl) (columns f))"
  by (simp add: detect_def numeric_columns_def filter_fst_filter)

lemma referral_sources_detect: "referral_sources_of f = detect [''Date''] f"
  unfolding detect_eq referral_sources_of_def
  by (rule arg_cong [where f = "map fst"], rule filter_cong) auto

lemma token_source_cols_detect: "token_source_cols f = detect [''Total''] (tsdf f)"
  unfolding detect_def token_source_cols_def
  by (rule filter_cong) auto

lemma pie_token_source_cols_detect:
  "pie_token_source_cols f = detect [''Date'', ''Month_dt'', ''Month'', ''Total''] (pie_tsdf f)"
  unfolding detect_eq pie_token_source_cols_def
  by (rule arg_cong [where f = "map fst"], rule filter_cong) auto

lemma infer_dtype_Number: "infer_dtype cs = Number \<longleftrightarrow> cs \<noteq> [] \<and> list_all numeric_cell cs"
  by (simp add: infer_dtype_def)

lemma columns_tsdf: "columns (tsdf f) = columns f"
  by (simp add: tsdf_def)

text \<open>The numeric columns of a sheet as read, and what the statements that assign a
  column or drop rows make of them.\<close>

lemma numeric_columns_read_sheet:
  "numeric_columns (read_sheet sh) =
     filter (\<lambda>c. body sh \<noteq> [] \<and> list_all (\<lambda>r. numeric_cell (r c)) (body sh)) (header sh)"
proof -
  have "map fst (filter (\<lambda>(c, t). t = Number) (map (\<lambda>c. (c, g c)) hs)) = filter (\<lambda>c. g c = Number) hs"
    for g :: "string \<Rightarrow> dtype" and hs
    by (induction hs) simp_all
  then show ?thesis
    by (simp add: numeric_columns_def read_sheet_def infer_dtype_Number list.pred_map comp_def)
qed

lemma numeric_columns_retype:
  "ty \<noteq> Number \<Longrightarrow>
   map fst (filter (\<lambda>(c, t). t = Number) (map (\<lambda>(n, t). if n = d then (n, ty) else (n, t)) xs)) =
   filter (\<lambda>c. c \<noteq> d) (map fst (filter (\<lambda>(c, t). t = Number) xs))"
  by (induction xs) auto

lemma numeric_columns_assign:
  assumes "ty \<noteq> Number"
  shows "numeric_columns (assign d ty g f) = filter (\<lambda>c. c \<noteq> d) (numeric_columns f)"
proof (cases "d \<in> set (column_names f)")
  case True
  with assms show ?thesis
    by (simp add: assign_def numeric_columns_def numeric_columns_retype)
next
  case False
  then have "d \<notin> set (numeric_columns f)"
    by (auto simp: numeric_columns_def column_names_def)
  then have "filter (\<lambda>c. c \<noteq> d) (numeric_columns f) = numeric_columns f"
    by (intro filter_True) auto
  with False assms show ?thesis
    by (simp add: assign_def numeric_columns_def)
qed

lemma numeric_columns_rows [simp]:
  "numeric_columns (dropna_Date f) = numeric_columns f"
  "numeric_columns (select_rows p f) = numeric_columns f"
  "numeric_columns (sort_by_Month_dt f) = numeric_columns f"
  by (simp_all add: numeric_columns_def sort_by_Month_dt_def)

lemma numeric_columns_normalize_tokens:
  "numeric_columns (normalize_tokens f) = filter (\<lambda>c. c \<noteq> ''Date'') (numeric_columns f)"
  by (simp add: normalize_tokens_def parse_dates_def numeric_columns_assign)

lemma referral_sources_numeric:
  "referral_sources_of f = filter (\<lambda>c. c \<noteq> ''Date'') (numeric_columns f)"
  by (simp add: referral_sources_detect detect_def)

lemma referral_sources_normalize_dates:
  "referral_sources_of (normalize_dates f) = referral_sources_of f"
  by (simp add: referral_sources_numeric normalize_dates_def parse_dates_def numeric_columns_assign)

lemma referral_sources_sheet:
  "referral_sources_of (normalize_dates (read_sheet sh)) =
     filter (\<lambda>c. c \<noteq> ''Date'' \<and> body sh \<noteq> [] \<and> list_all (\<lambda>r. numeric_cell (r c)) (body sh)) (header sh)"
proof -
  have "referral_sources_of (normalize_dates (read_sheet sh)) =
        filter (\<lambda>c. c \<noteq> ''Date'') (numeric_columns (read_sheet sh))"
    unfolding referral_sources_normalize_dates by (rule referral_sources_numeric)
  also have "\<dots> = filter (\<lambda>c. c \<noteq> ''Date'' \<and> body sh \<noteq> [] \<and> list_all (\<lambda>r. numeric_cell (r c)) (body sh))
        (header sh)"
    unfolding numeric_columns_read_sheet filter_filter by (rule filter_cong [OF refl]) blast
  finally show ?thesis .
qed

lemma token_source_cols_sheet:
  "token_source_cols (normalize_tokens (read_sheet sh)) =
     filter (\<lambda>c. c \<noteq> ''Date'' \<and> c \<noteq> ''Total'' \<and> body sh \<noteq> []
                \<and> list_all (\<lambda>r. numeric_cell (r c)) (body sh)) (header sh)"
proof -
  have "token_source_cols (normalize_tokens (read_sheet sh)) =
        filter (\<lambda>c. c \<noteq> ''Total'') (filter (\<lambda>c. c \<noteq> ''Date'') (numeric_columns (read_sheet sh)))"
    by (simp only: token_source_cols_def tsdf_def numeric_columns_rows numeric_columns_normalize_tokens)
  also have "\<dots> = filter (\<lambda>c. c \<noteq> ''Date'' \<and> c \<noteq> ''Total'' \<and> body sh \<noteq> []
                \<and> list_all (\<lambda>r. numeric_cell (r c)) (body sh)) (header sh)"
    unfolding numeric_columns_read_sheet filter_filter by (rule filter_cong [OF refl]) blast
  finally show ?thesis .
qed

lemma numeric_columns_pie_tsdf:
  "numeric_columns (pie_tsdf t) =
     filter (\<lambda>c. c \<noteq> ''Month'') (filter (\<lambda>c. c \<noteq> ''Month_dt'')
       (filter (\<lambda>c. c \<noteq> ''Date'') (numeric_columns t)))"
proof -
  have ty: "Object \<noteq> Number" "Datetime \<noteq> Number" by simp_all
  show ?thesis
    by (simp only: pie_tsdf_def numeric_columns_rows numeric_columns_assign [OF ty(1)]
        numeric_columns_assign [OF ty(2)])
qed

lemma filter_excluded:
  "filter (\<lambda>c. c \<notin> set [a, b, m, t])
     (filter (\<lambda>c. c \<noteq> m) (filter (\<lambda>c. c \<noteq> b) (filter (\<lambda>c. c \<noteq> a) (filter (\<lambda>c. c \<noteq> a) (filter P xs))))) =
   filter (\<lambda>c. c \<noteq> a \<and> c \<noteq> b \<and> c \<noteq> m \<and> c \<noteq> t \<and> P c) xs"
  by (induction xs) auto

lemma pie_token_source_cols_sheet:
  "pie_token_source_cols (normalize_tokens (read_sheet sh)) =
     filter (\<lambda>c. c \<noteq> ''Date'' \<and> c \<noteq> ''Month_dt'' \<and> c \<noteq> ''Month'' \<and> c \<noteq> ''Total'' \<and> body sh \<noteq> []
                \<and> list_all (\<lambda>r. numeric_cell (r c)) (body sh)) (header sh)"
  by (simp only: pie_token_source_cols_detect detect_def numeric_columns_pie_tsdf
      numeric_columns_normalize_tokens numeric_columns_read_sheet filter_excluded)

text \<open>When normalization drops no record, the cells of the other columns are those of
  the sheet.\<close>

lemma cells_upd_other:
  "c \<noteq> d \<Longrightarrow> list_all (\<lambda>r. P (r c)) (map (\<lambda>r. r(d := g r)) rs) = list_all (\<lambda>r. P (r c)) rs"
  by (simp add: list.pred_map comp_def)

lemma rows_normalize_dates_all:
  assumes "''Date'' \<in> set (header sh)" "list_all (\<lambda>r. to_datetime Fmt_Ymd (r ''Date'') \<noteq> NaN) (body sh)"
  shows "rows (normalize_dates (read_sheet sh)) =
         map (\<lambda>r. r(''Date'' := to_datetime Fmt_Ymd (r ''Date''))) (body sh)"
proof -
  have "filter (\<lambda>r. to_datetime Fmt_Ymd (r ''Date'') \<noteq> NaN) (body sh) = body sh"
    using assms(2) by (intro filter_True) (simp add: list_all_iff)
  with assms(1) show ?thesis
    by (simp add: normalize_dates_def parse_dates_def column_names_def read_sheet_def assign_def
        dropna_Date_def filter_map comp_def)
qed

lemma column_names_dropna_Date [simp]: "column_names (dropna_Date f) = column_names f"
  by (simp add: column_names_def)

lemma column_names_normalize_dates:
  "column_names (normalize_dates f) = column_names f"
  by (simp add: normalize_dates_def parse_dates_def column_names_assign)

lemma column_names_read_sheet [simp]: "column_names (read_sheet sh) = header sh"
  by (simp add: column_names_def read_sheet_def comp_def)

lemma referral_sources_dataset:
  assumes "''Date'' \<in> set (header sh)" "body sh \<noteq> []"
    "list_all (\<lambda>r. to_datetime Fmt_Ymd (r ''Date'') \<noteq> NaN) (body sh)"
  shows "referral_sources_of (normalize_dates (read_sheet sh)) =
     filter (\<lambda>c. c \<noteq> ''Date'' \<and> list_all (\<lambda>r. numeric_cell (r c)) (rows (normalize_dates (read_sheet sh))))
       (column_names (normalize_dates (read_sheet sh)))"
proof -
  have names: "column_names (normalize_dates (read_sheet sh)) = header sh"
    by (simp add: column_names_normalize_dates)
  have "(c \<noteq> ''Date'' \<and> body sh \<noteq> [] \<and> list_all (\<lambda>r. numeric_cell (r c)) (body sh)) =
        (c \<noteq> ''Date'' \<and> list_all (\<lambda>r. numeric_cell (r c))
           (map (\<lambda>r. r(''Date'' := to_datetime Fmt_Ymd (r ''Date''))) (body sh)))" for c
    using assms(2) cells_upd_other [of c "''Date''" numeric_cell "\<lambda>r. to_datetime Fmt_Ymd (r ''Date'')" "body sh"]
    by blast
  then show ?thesis
    unfolding referral_sources_sheet names rows_normalize_dates_all [OF assms(1,3)]
    by (intro filter_cong refl)
qed

lemma rows_normalize_tokens_all:
  assumes "list_all (\<lambda>r. to_datetime Fmt_mdY (r ''Date'') \<noteq> NaN) (body sh)"
  shows "rows (normalize_tokens (read_sheet sh)) =
         map (\<lambda>r. r(''Date'' := strip_time (to_datetime Fmt_mdY (r ''Date'')))) (body sh)"
proof -
  have "filter (\<lambda>r. to_datetime Fmt_mdY (r ''Date'') \<noteq> NaN) (body sh) = body sh"
    using assms by (intro filter_True) (simp add: list_all_iff)
  then show ?thesis
    by (simp add: rows_normalize_tokens read_sheet_def)
qed

lemma column_names_normalize_tokens:
  "''Date'' \<in> set (column_names f) \<Longrightarrow> column_names (normalize_tokens f) = column_names f"
  by (simp add: normalize_tokens_def parse_dates_def column_names_assign)

lemma token_source_cols_dataset:
  assumes "''Date'' \<in> set (header sh)" "body sh \<noteq> []"
    "list_all (\<lambda>r. to_datetime Fmt_mdY (r ''Date'') \<noteq> NaN) (body sh)"
  shows "token_source_cols (normalize_tokens (read_sheet sh)) =
     filter (\<lambda>c. c \<noteq> ''Date'' \<and> c \<noteq> ''Total''
                \<and> list_all (\<lambda>r. numeric_cell (r c)) (rows (normalize_tokens (read_sheet sh))))
       (column_names (normalize_tokens (read_sheet sh)))"
proof -
  have names: "column_names (normalize_tokens (read_sheet sh)) = header sh"
    using assms(1) by (simp add: column_names_normalize_tokens)
  have "(c \<noteq> ''Date'' \<and> c \<noteq> ''Total'' \<and> body sh \<noteq> [] \<and> list_all (\<lambda>r. numeric_cell (r c)) (body sh)) =
        (c \<noteq> ''Date'' \<and> c \<noteq> ''Total'' \<and> list_all (\<lambda>r. numeric_cell (r c))
           (map (\<lambda>r. r(''Date'' := strip_time (to_datetime Fmt_mdY (r ''Date'')))) (body sh)))" for c
    using assms(2)
      cells_upd_other [of c "''Date''" numeric_cell "\<lambda>r. strip_time (to_datetime Fmt_mdY (r ''Date''))" "body sh"]
    by blast
  then show ?thesis
    unfolding token_source_cols_sheet names rows_normalize_tokens_all [OF assms(3)]
    by (intro filter_cong refl)
qed

text \<open>
  Claim C5, amended. Category detection returns the columns of numeric dtype that are
  not excluded, in column order, and its result depends only on the columns of the
  frame, so detecting again gives the same list. The dtype of a column is the one
  \<^verbatim>\<open>read_excel\<close> inferred from the sheet: the referral sources, the token sources
  and the sources of the pies are the fields of the sheet, other than the excluded
  ones, whose cell is a number or a blank in every record of the sheet as it was read,
  the records that date normalization drops included, and no field at all when the
  sheet has no record. \<^verbatim>\<open>Date\<close> is never detected, and \<^verbatim>\<open>Total\<close> never among the
  token sources. When the sheet has a record and normalization drops none, the
  detected fields are exactly the fields that are numeric in every record of the
  dataset.
\<close>

theorem category_detection:
  "detect excl f = map fst (filter (\<lambda>(c, t). t = Number \<and> c \<notin> set excl) (columns f))
   \<and> (columns g = columns f \<longrightarrow> detect excl g = detect excl f)
   \<and> referral_sources_of f = detect [''Date''] f
   \<and> token_source_cols f = detect [''Total''] (tsdf f)
   \<and> pie_token_source_cols f = detect [''Date'', ''Month_dt'', ''Month'', ''Total''] (pie_tsdf f)
   \<and> referral_sources_of (normalize_dates (read_sheet sh)) =
       filter (\<lambda>c. c \<noteq> ''Date'' \<and> body sh \<noteq> [] \<and> list_all (\<lambda>r. numeric_cell (r c)) (body sh))
         (header sh)
   \<and> token_source_cols (normalize_tokens (read_sheet ts)) =
       filter (\<lambda>c. c \<noteq> ''Date'' \<and> c \<noteq> ''Total'' \<and> body ts \<noteq> []
                  \<and> list_all (\<lambda>r. numeric_cell (r c)) (body ts)) (header ts)
   \<and> pie_token_source_cols (normalize_tokens (read_sheet ts)) =
       filter (\<lambda>c. c \<noteq> ''Date'' \<and> c \<noteq> ''Month_dt'' \<and> c \<noteq> ''Month'' \<and> c \<noteq> ''Total'' \<and> body ts \<noteq> []
                  \<and> list_all (\<lambda>r. numeric_cell (r c)) (body ts)) (header ts)
   \<and> (''Date'' \<in> set (header sh) \<and> body sh \<noteq> []
        \<and> list_all (\<lambda>r. to_datetime Fmt_Ymd (r ''Date'') \<noteq> NaN) (body sh) \<longrightarrow>
        referral_sources_of (normalize_dates (read_sheet sh)) =
          filter (\<lambda>c. c \<noteq> ''Date''
                     \<and> list_all (\<lambda>r. numeric_cell (r c)) (rows (normalize_dates (read_sheet sh))))
            (column_names (normalize_dates (read_sheet sh))))
   \<and> (''Date'' \<in> set (header ts) \<and> body ts \<noteq> []
        \<and> list_all (\<lambda>r. to_datetime Fmt_mdY (r ''Date'') \<noteq> NaN) (body ts) \<longrightarrow>
        token_source_cols (normalize_tokens (read_sheet ts)) =
          filter (\<lambda>c. c \<noteq> ''Date'' \<and> c \<noteq> ''Total''
                     \<and> list_all (\<lambda>r. numeric_cell (r c)) (rows (normalize_tokens (read_sheet ts))))
            (column_names (normalize_tokens (read_sheet ts))))"
proof -
  have 1: "detect excl g = detect excl f" if "columns g = columns f"
    using that by (simp add: detect_eq)
  show ?thesis
    using 1 detect_eq [of excl f] referral_sources_detect [of f] token_source_cols_detect [of f]
      pie_token_source_cols_detect [of f] referral_sources_sheet [of sh] token_source_cols_sheet [of ts]
      pie_token_source_cols_sheet [of ts] referral_sources_dataset [of sh] token_source_cols_dataset [of ts]
    by blast
qed

text \<open>The definitions unfolded to evaluate the cleaning of a concrete sheet.\<close>

lemmas sheet_eval = read_sheet_def infer_dtype_def row_of_def normalize_dates_def column_names_def
  dropna_Date_def parse_dates_def assign_def strptime_def make_date_def number_def digit_def
  days_in_month_def leap_year_def midnight_def

lemma mixed_sheet_example:
  "map (\<lambda>r. (r ''Date'', r ''Twitter'', r ''Discord''))
     (rows (normalize_dates (read_sheet referral_sheet_mixed))) =
    [(Stamp (Timestamp (Date 2025 1 10) 0), Num 4, Num 1),
     (Stamp (Timestamp (Date 2025 3 3) 0), Num 1, Num 5)]"
  by (simp add: referral_sheet_mixed_def sheet_eval)

text \<open>
  The claim as stated fails on a referral sheet with a record whose date does not parse
  and that holds a text under \<^verbatim>\<open>Twitter\<close>: normalization drops the record, every
  record of the dataset holds a number under \<^verbatim>\<open>Twitter\<close>, and the column keeps the
  object dtype it was read with, so \<^verbatim>\<open>Twitter\<close> is not a referral source.
\<close>

theorem stale_dtype_counterexample:
  "map (\<lambda>r. (r ''Date'', r ''Twitter'', r ''Discord''))
     (rows (normalize_dates (read_sheet referral_sheet_mixed))) =
    [(Stamp (Timestamp (Date 2025 1 10) 0), Num 4, Num 1),
     (Stamp (Timestamp (Date 2025 3 3) 0), Num 1, Num 5)]
   \<and> list_all (\<lambda>r. numeric_cell (r ''Twitter'')) (rows (normalize_dates (read_sheet referral_sheet_mixed)))
   \<and> ''Twitter'' \<in> set (column_names (normalize_dates (read_sheet referral_sheet_mixed)))
   \<and> referral_sources_of (normalize_dates (read_sheet referral_sheet_mixed)) = [''Discord'']
   \<and> ''Twitter'' \<notin> set (referral_sources_of (normalize_dates (read_sheet referral_sheet_mixed)))"
proof -
  let ?D = "normalize_dates (read_sheet referral_sheet_mixed)"
  have a: "map (\<lambda>r. r ''Twitter'') (rows ?D) = [Num 4, Num 1]"
    using arg_cong [OF mixed_sheet_example, of "map (\<lambda>(d, t, s). t)"] by (simp add: comp_def)
  have "list_all numeric_cell (map (\<lambda>r. r ''Twitter'') (rows ?D))"
    unfolding a by simp
  then have b: "list_all (\<lambda>r. numeric_cell (r ''Twitter'')) (rows ?D)"
    by (simp add: list.pred_map comp_def)
  have c: "''Twitter'' \<in> set (column_names ?D)"
    by (simp add: column_names_normalize_dates) (simp add: referral_sheet_mixed_def)
  have d: "referral_sources_of ?D = [''Discord'']"
    by (simp add: referral_sources_sheet) (simp add: referral_sheet_mixed_def row_of_def)
  from mixed_sheet_example b c d show ?thesis by simp
qed

theorem category_detection_witness:
  "columns (tsdf (normalize_tokens (read_sheet token_sheet))) = columns (normalize_tokens (read_sheet token_sheet))
   \<and> detect [''Total''] (tsdf (normalize_tokens (read_sheet token_sheet))) = [''Airdrop'', ''Staking'']
   \<and> referral_sources_of (normalize_dates (read_sheet referral_sheet)) = [''Twitter'', ''Discord'']
   \<and> ''Date'' \<in> set (header wallet_sheet) \<and> body wallet_sheet \<noteq> []
   \<and> list_all (\<lambda>r. to_datetime Fmt_Ymd (r ''Date'') \<noteq> NaN) (body wallet_sheet)
   \<and> filter (\<lambda>c. c \<noteq> ''Date''
                \<and> list_all (\<lambda>r. numeric_cell (r c)) (rows (normalize_dates (read_sheet wallet_sheet))))
         (column_names (normalize_dates (read_sheet wallet_sheet))) = [''Android'', ''iOS'', ''Web'']
   \<and> ''Date'' \<in> set (header token_sheet) \<and> body token_sheet \<noteq> []
   \<and> list_all (\<lambda>r. to_datetime Fmt_mdY (r ''Date'') \<noteq> NaN) (body token_sheet)
   \<and> filter (\<lambda>c. c \<noteq> ''Date'' \<and> c \<noteq> ''Total''
                \<and> list_all (\<lambda>r. numeric_cell (r c)) (rows (normalize_tokens (read_sheet token_sheet))))
         (column_names (normalize_tokens (read_sheet token_sheet))) = [''Airdrop'', ''Staking'']"
proof -
  let ?T = "normalize_tokens (read_sheet token_sheet)"
  let ?R = "normalize_dates (read_sheet referral_sheet)"
  let ?W = "normalize_dates (read_sheet wallet_sheet)"
  note t1 = category_detection [of "[''Total'']" ?T "tsdf ?T" referral_sheet token_sheet]
  note t2 = category_detection [of "[''Total'']" ?T "tsdf ?T" wallet_sheet token_sheet]
  have h1: "columns (tsdf ?T) = columns ?T"
    by (simp add: tsdf_def)
  have hw: "''Date'' \<in> set (header wallet_sheet)" "body wallet_sheet \<noteq> []"
    "list_all (\<lambda>r. to_datetime Fmt_Ymd (r ''Date'') \<noteq> NaN) (body wallet_sheet)"
    by (simp_all add: wallet_sheet_def row_of_def strptime_def make_date_def number_def digit_def
        days_in_month_def leap_year_def)
  have ht: "''Date'' \<in> set (header token_sheet)" "body token_sheet \<noteq> []"
    "list_all (\<lambda>r. to_datetime Fmt_mdY (r ''Date'') \<noteq> NaN) (body token_sheet)"
    by (simp_all add: token_sheet_def row_of_def strptime_def make_date_def number_def digit_def
        days_in_month_def leap_year_def)
  from t1 have "token_source_cols ?T =
      filter (\<lambda>c. c \<noteq> ''Date'' \<and> c \<noteq> ''Total'' \<and> body token_sheet \<noteq> []
                 \<and> list_all (\<lambda>r. numeric_cell (r c)) (body token_sheet)) (header token_sheet)"
    by blast
  then have ts: "token_source_cols ?T = [''Airdrop'', ''Staking'']"
    by (simp add: token_sheet_def row_of_def)
  from t1 h1 have "detect [''Total''] (tsdf ?T) = detect [''Total''] ?T"
    by blast
  moreover from t1 have "token_source_cols ?T = detect [''Total''] (tsdf ?T)"
    by blast
  ultimately have d: "detect [''Total''] (tsdf ?T) = [''Airdrop'', ''Staking'']"
    using ts by simp
  from t1 have "referral_sources_of ?R =
      filter (\<lambda>c. c \<noteq> ''Date'' \<and> body referral_sheet \<noteq> []
                 \<and> list_all (\<lambda>r. numeric_cell (r c)) (body referral_sheet)) (header referral_sheet)"
    by blast
  then have r: "referral_sources_of ?R = [''Twitter'', ''Discord'']"
    by (simp add: referral_sheet_def row_of_def)
  from t2 have "referral_sources_of ?W =
      filter (\<lambda>c. c \<noteq> ''Date'' \<and> body wallet_sheet \<noteq> []
                 \<and> list_all (\<lambda>r. numeric_cell (r c)) (body wallet_sheet)) (header wallet_sheet)"
    by blast
  then have w0: "referral_sources_of ?W = [''Android'', ''iOS'', ''Web'']"
    by (simp add: wallet_sheet_def row_of_def)
  from t2 hw have "referral_sources_of ?W =
      filter (\<lambda>c. c \<noteq> ''Date'' \<and> list_all (\<lambda>r. numeric_cell (r c)) (rows ?W)) (column_names ?W)"
    by blast
  with w0 have w: "filter (\<lambda>c. c \<noteq> ''Date'' \<and> list_all (\<lambda>r. numeric_cell (r c)) (rows ?W)) (column_names ?W) =
      [''Android'', ''iOS'', ''Web'']"
    by simp
  from t1 ht have "token_source_cols ?T =
      filter (\<lambda>c. c \<noteq> ''Date'' \<and> c \<noteq> ''Total'' \<and> list_all (\<lambda>r. numeric_cell (r c)) (rows ?T)) (column_names ?T)"
    by blast
  with ts have t: "filter (\<lambda>c. c \<noteq> ''Date'' \<and> c \<noteq> ''Total'' \<and> list_all (\<lambda>r. numeric_cell (r c)) (rows ?T))
      (column_names ?T) = [''Airdrop'', ''Staking'']"
    by simp
  from h1 d r hw w ht t show ?thesis by blast
qed

section \<open>Pivoting\<close>

lemma rows_melt:
  "rows (melt i cs v n f) =
     concat (map (\<lambda>c. map (long_row i v n c) (rows f)) cs)"
  by (simp add: melt_def)

lemma long_row_value [simp]: "long_row i v n c r n = r c"
  by (simp add: long_row_def)

lemma long_row_var [simp]: "v \<noteq> n \<Longrightarrow> long_row i v n c r v = Text c"
  by (simp add: long_row_def)

lemma long_row_id [simp]: "i \<noteq> v \<Longrightarrow> i \<noteq> n \<Longrightarrow> long_row i v n c r i = r i"
  by (simp add: long_row_def)

lemma length_melt: "length (rows (melt i cs v n f)) = length (rows f) * length cs"
  by (induction cs) (simp_all add: rows_melt)

lemma mset_concat_swap:
  "mset (concat (map (\<lambda>c. map (\<lambda>r. h r c) rs) cs)) = mset (concat (map (\<lambda>r. map (h r) cs) rs))"
proof (induction cs)
  case Nil
  then show ?case by (induction rs) simp_all
next
  case (Cons c cs)
  have "mset (concat (map (\<lambda>r. map (h r) (c # cs)) rs)) =
        mset (map (\<lambda>r. h r c) rs) + mset (concat (map (\<lambda>r. map (h r) cs) rs))"
    by (induction rs) simp_all
  with Cons show ?case by simp
qed

lemma melt_values:
  "mset (map (\<lambda>r. r n) (rows (melt i cs v n f))) = mset (concat (map (\<lambda>b. map b cs) (rows f)))"
proof -
  have "map (\<lambda>r. r n) (rows (melt i cs v n f)) = concat (map (\<lambda>c. map (\<lambda>r. r c) (rows f)) cs)"
    by (simp add: rows_melt map_concat comp_def)
  then show ?thesis
    using mset_concat_swap [of "\<lambda>r c. r c" "rows f" cs] by simp
qed

lemma melt_pairs:
  "i \<noteq> v \<Longrightarrow> i \<noteq> n \<Longrightarrow> v \<noteq> n \<Longrightarrow>
   mset (map (\<lambda>r. (r i, r v, r n)) (rows (melt i cs v n f))) =
   mset (concat (map (\<lambda>b. map (\<lambda>c. (b i, Text c, b c)) cs) (rows f)))"
proof -
  assume a: "i \<noteq> v" "i \<noteq> n" "v \<noteq> n"
  then have "map (\<lambda>r. (r i, r v, r n)) (rows (melt i cs v n f)) =
        concat (map (\<lambda>c. map (\<lambda>b. (b i, Text c, b c)) (rows f)) cs)"
    by (simp add: rows_melt map_concat comp_def)
  then show ?thesis
    using mset_concat_swap [of "\<lambda>b c. (b i, Text c, b c)" "rows f" cs] by simp
qed

lemma col_sum_append [simp]: "col_sum c (xs @ ys) = col_sum c xs + col_sum c ys"
  by (simp add: col_sum_def)

lemma in_month_append [simp]: "in_month key k (xs @ ys) = in_month key k xs @ in_month key k ys"
  by (simp add: in_month_def)

lemma melt_month_sum:
  assumes "i \<noteq> v" "i \<noteq> n"
  shows "col_sum n (in_month i k (rows (melt i cs v n f))) =
         sum_list (map (row_sum cs) (in_month i k (rows f)))"
proof -
  have one: "col_sum n (in_month i k (map (long_row i v n c) rs)) =
        sum_list (map (\<lambda>r. as_num (r c)) (in_month i k rs))" for c rs
    using assms by (induction rs) (simp_all add: in_month_def col_sum_def)
  have "col_sum n (in_month i k (rows (melt i cs v n f))) =
        sum_list (map (\<lambda>c. sum_list (map (\<lambda>r. as_num (r c)) (in_month i k (rows f)))) cs)"
    unfolding rows_melt by (induction cs) (simp_all add: one, simp add: in_month_def col_sum_def)
  also have "\<dots> = sum_list (map (\<lambda>r. sum_list (map (\<lambda>c. as_num (r c)) cs)) (in_month i k (rows f)))"
    by (rule sum_list_swap)
  finally show ?thesis by (simp add: row_sum_def [abs_def])
qed

lemma in_month_buckets:
  assumes "distinct ks"
  shows "in_month key k (map (\<lambda>j. bucket key j cs (g j)) ks) =
         (if k \<in> set ks then [bucket key k cs (g k)] else [])"
  using assms by (induction ks) (auto simp: in_month_def)

lemma in_month_groupby:
  "in_month ''Month'' k (rows (groupby_Month_sum cs f)) =
     (if k \<in> set (group_months ''Month'' (stamped ''Month'' (rows f)))
      then [bucket ''Month'' k cs (in_month ''Month'' k (stamped ''Month'' (rows f)))] else [])"
  unfolding rows_groupby by (rule in_month_buckets) simp

lemma bucket_in_groupby:
  assumes "b \<in> set (rows (groupby_Month_sum cs f))"
  shows "in_month ''Month'' (month_of (b ''Month'')) (rows (groupby_Month_sum cs f)) = [b]"
proof -
  from assms obtain k where k: "k \<in> set (group_months ''Month'' (stamped ''Month'' (rows f)))"
    and b: "b = bucket ''Month'' k cs (in_month ''Month'' k (stamped ''Month'' (rows f)))"
    by (auto simp: rows_groupby)
  from b have "month_of (b ''Month'') = k" by simp
  with k b show ?thesis by (simp add: in_month_groupby)
qed

lemma melt_groupby_month_total:
  assumes "b \<in> set (rows (groupby_Month_sum cs f))" "v \<noteq> ''Month''" "n \<noteq> ''Month''"
  shows "col_sum n (in_month ''Month'' (month_of (b ''Month''))
            (rows (melt ''Month'' cs v n (groupby_Month_sum cs f)))) = row_sum cs b"
  using assms by (simp add: melt_month_sum bucket_in_groupby)

lemma groupby_rows_Month:
  "b \<in> set (rows (groupby_Month_sum cs f)) \<Longrightarrow> \<exists>k. b ''Month'' = Stamp (midnight (month_start k))"
  by (auto simp: rows_groupby)

lemma stamped_all: "(\<And>r. r \<in> set rs \<Longrightarrow> \<exists>t. r key = Stamp t) \<Longrightarrow> stamped key rs = rs"
  unfolding stamped_def by (rule filter_True) (fastforce split: cell.splits)

lemma stamped_melt_groupby:
  assumes "v \<noteq> ''Month''" "n \<noteq> ''Month''"
  shows "stamped ''Month'' (rows (melt ''Month'' cs v n (groupby_Month_sum cs' f))) =
         rows (melt ''Month'' cs v n (groupby_Month_sum cs' f))"
proof (rule stamped_all)
  fix r assume "r \<in> set (rows (melt ''Month'' cs v n (groupby_Month_sum cs' f)))"
  then obtain c b where "b \<in> set (rows (groupby_Month_sum cs' f))" "r = long_row ''Month'' v n c b"
    by (auto simp: rows_melt)
  with assms groupby_rows_Month [of b cs' f] show "\<exists>t. r ''Month'' = Stamp t"
    by auto
qed

lemma months_groupby:
  "map (\<lambda>b. month_of (b ''Month'')) (rows (groupby_Month_sum cs f)) =
     group_months ''Month'' (stamped ''Month'' (rows f))"
  by (simp add: rows_groupby comp_def)

lemma group_months_melt:
  assumes "cs \<noteq> []" "v \<noteq> ''Month''" "n \<noteq> ''Month''"
  shows "group_months ''Month'' (rows (melt ''Month'' cs v n g)) =
         sort (remdups (map (\<lambda>b. month_of (b ''Month'')) (rows g)))"
proof -
  have "set (map (\<lambda>r. month_of (r ''Month'')) (rows (melt ''Month'' cs v n g))) =
        set (map (\<lambda>b. month_of (b ''Month'')) (rows g))"
    using assms by (cases cs) (auto simp: rows_melt)
  then have "set (group_months ''Month'' (rows (melt ''Month'' cs v n g))) =
        set (sort (remdups (map (\<lambda>b. month_of (b ''Month'')) (rows g))))"
    by (simp add: group_months_def)
  then show ?thesis
    by (intro sorted_distinct_set_unique) (simp_all add: group_months_def)
qed

lemma regroup_melted:
  assumes "cs \<noteq> []" "v \<noteq> ''Month''" "n \<noteq> ''Month''"
  shows "map (\<lambda>r. (r ''Month'', r n)) (rows (groupby_Month_sum [n] (melt ''Month'' cs v n (groupby_Month_sum cs f)))) =
         map (\<lambda>b. (b ''Month'', Num (row_sum cs b))) (rows (groupby_Month_sum cs f))"
proof -
  let ?g = "groupby_Month_sum cs f"
  let ?m = "melt ''Month'' cs v n ?g"
  let ?ks = "group_months ''Month'' (stamped ''Month'' (rows f))"
  have st: "stamped ''Month'' (rows ?m) = rows ?m"
    using assms by (simp add: stamped_melt_groupby)
  have "sort (remdups (map (\<lambda>b. month_of (b ''Month'')) (rows ?g))) = ?ks"
    unfolding months_groupby
    by (intro sorted_distinct_set_unique) simp_all
  then have ks: "group_months ''Month'' (rows ?m) = ?ks"
    using assms by (simp add: group_months_melt)
  have cell: "col_sum n (in_month ''Month'' k (rows ?m)) =
        row_sum cs (bucket ''Month'' k cs (in_month ''Month'' k (stamped ''Month'' (rows f))))"
    if "k \<in> set ?ks" for k
    using that assms by (simp add: melt_month_sum in_month_groupby)
  have "map (\<lambda>r. (r ''Month'', r n)) (rows (groupby_Month_sum [n] ?m)) =
        map (\<lambda>k. (Stamp (midnight (month_start k)), Num (col_sum n (in_month ''Month'' k (rows ?m))))) ?ks"
    using assms by (simp add: rows_groupby [of "[n]"] st ks comp_def bucket_col)
  also have "\<dots> = map (\<lambda>k. (Stamp (midnight (month_start k)),
        Num (row_sum cs (bucket ''Month'' k cs (in_month ''Month'' k (stamped ''Month'' (rows f)))))))  ?ks"
    by (rule map_cong) (simp_all add: cell)
  also have "\<dots> = map (\<lambda>b. (b ''Month'', Num (row_sum cs b))) (rows ?g)"
    by (simp add: rows_groupby comp_def)
  finally show ?thesis .
qed

text \<open>
  Claim C7. Melting the monthly wallet and referral aggregates gives one long row for
  each pair of a month row and a category, with the same month, the name of the category
  and the value of the wide cell, so the multiset of values is that of the wide form.
  Summing the long rows of a month gives the total of that month's wide row; when there
  is at least one category the regrouped frame \<^verbatim>\<open>referral_totals_by_month\<close> lists, for
  every month of the wide form and in the same order, that total.
\<close>

theorem pivot_round_trip:
  "length (rows (wallets_melted w)) = length (rows (monthly_wallets w)) * length wallet_cols
   \<and> length (rows (referral_melted srcs f)) = length (rows (referral_by_source srcs f)) * length srcs
   \<and> mset (map (\<lambda>r. (r ''Month'', r ''Platform'', r ''Count'')) (rows (wallets_melted w))) =
       mset (concat (map (\<lambda>b. map (\<lambda>c. (b ''Month'', Text c, b c)) wallet_cols) (rows (monthly_wallets w))))
   \<and> mset (map (\<lambda>r. (r ''Month'', r ''Campaign'', r ''Referrals'')) (rows (referral_melted srcs f))) =
       mset (concat (map (\<lambda>b. map (\<lambda>c. (b ''Month'', Text c, b c)) srcs) (rows (referral_by_source srcs f))))
   \<and> (\<forall>b \<in> set (rows (monthly_wallets w)).
        col_sum ''Count'' (in_month ''Month'' (month_of (b ''Month'')) (rows (wallets_melted w))) =
          row_sum wallet_cols b)
   \<and> (\<forall>b \<in> set (rows (referral_by_source srcs f)).
        col_sum ''Referrals'' (in_month ''Month'' (month_of (b ''Month'')) (rows (referral_melted srcs f))) =
          row_sum srcs b)
   \<and> (srcs \<noteq> [] \<longrightarrow>
        map (\<lambda>r. (r ''Month'', r ''Referrals'')) (rows (referral_totals_by_month srcs f)) =
          map (\<lambda>b. (b ''Month'', Num (row_sum srcs b))) (rows (referral_by_source srcs f)))"
proof -
  have a: "col_sum ''Count'' (in_month ''Month'' (month_of (b ''Month'')) (rows (wallets_melted w))) =
          row_sum wallet_cols b" if "b \<in> set (rows (monthly_wallets w))" for b
    using that unfolding wallets_melted_def monthly_wallets_def
    by (intro melt_groupby_month_total) simp_all
  have b: "col_sum ''Referrals'' (in_month ''Month'' (month_of (b ''Month'')) (rows (referral_melted srcs f))) =
          row_sum srcs b" if "b \<in> set (rows (referral_by_source srcs f))" for b
    using that unfolding referral_melted_def referral_by_source_def
    by (intro melt_groupby_month_total) simp_all
  have c: "map (\<lambda>r. (r ''Month'', r ''Referrals'')) (rows (referral_totals_by_month srcs f)) =
          map (\<lambda>b. (b ''Month'', Num (row_sum srcs b))) (rows (referral_by_source srcs f))"
    if "srcs \<noteq> []"
    using that unfolding referral_totals_by_month_def referral_melted_def referral_by_source_def
    by (intro regroup_melted) simp_all
  have d: "mset (map (\<lambda>r. (r ''Month'', r ''Platform'', r ''Count'')) (rows (wallets_melted w))) =
       mset (concat (map (\<lambda>b. map (\<lambda>c. (b ''Month'', Text c, b c)) wallet_cols) (rows (monthly_wallets w))))"
    unfolding wallets_melted_def by (intro melt_pairs) simp_all
  have e: "mset (map (\<lambda>r. (r ''Month'', r ''Campaign'', r ''Referrals'')) (rows (referral_melted srcs f))) =
       mset (concat (map (\<lambda>b. map (\<lambda>c. (b ''Month'', Text c, b c)) srcs) (rows (referral_by_source srcs f))))"
    unfolding referral_melted_def by (intro melt_pairs) simp_all
  show ?thesis
    using a b c d e by (simp add: wallets_melted_def referral_melted_def length_melt)
qed

text \<open>The definitions unfolded to evaluate the aggregates of a concrete frame.\<close>

lemmas agg_eval = monthly_wallets_def groupby_Month_sum_def wallet_cols_def
  wallet_df_filtered_def with_Month_def select_rows_def after_def on_or_after_def stamped_def in_month_def bucket_def
  group_months_def month_of_def month_ord_def month_start_def to_month_def col_sum_def dtype_of_def Let_def
  referral_by_source_def rdf_def ts_le_def totals_def row_sum_def

lemma monthly_wallets_example:
  "map (\<lambda>b. (b ''Month'', b ''Android'', b ''iOS'', b ''Web''))
     (rows (monthly_wallets (normalize_dates (read_sheet wallet_sheet)))) =
    [(Stamp (Timestamp (Date 2025 1 1) 0), Num 5, Num 1, Num 1),
     (Stamp (Timestamp (Date 2025 3 1) 0), Num 0, Num 0, Num 5)]"
  by (simp add: wallet_sheet_def sheet_eval agg_eval)

lemma referral_by_source_example:
  "map (\<lambda>b. (b ''Month'', b ''Twitter'', b ''Discord''))
     (rows (referral_by_source [''Twitter'', ''Discord''] (normalize_dates (read_sheet referral_sheet)))) =
    [(Stamp (Timestamp (Date 2025 1 1) 0), Num 6, Num 1),
     (Stamp (Timestamp (Date 2025 3 1) 0), Num 1, Num 5)]"
  by (simp add: referral_sheet_def sheet_eval agg_eval)

theorem pivot_round_trip_witness:
  "[''Twitter'', ''Discord''] \<noteq> []
   \<and> length (rows (monthly_wallets (normalize_dates (read_sheet wallet_sheet)))) = 2
   \<and> length (rows (wallets_melted (normalize_dates (read_sheet wallet_sheet)))) = 6
   \<and> map (\<lambda>r. (r ''Month'', r ''Referrals''))
        (rows (referral_totals_by_month [''Twitter'', ''Discord''] (normalize_dates (read_sheet referral_sheet)))) =
      [(Stamp (Timestamp (Date 2025 1 1) 0), Num 7), (Stamp (Timestamp (Date 2025 3 1) 0), Num 6)]"
proof -
  let ?W = "normalize_dates (read_sheet wallet_sheet)"
  let ?R = "normalize_dates (read_sheet referral_sheet)"
  let ?s = "[''Twitter'', ''Discord'']"
  note t = pivot_round_trip [of ?W ?s ?R]
  have n: "length (rows (monthly_wallets ?W)) = 2"
    using arg_cong [OF monthly_wallets_example, of length] by simp
  from t have l: "length (rows (wallets_melted ?W)) = length (rows (monthly_wallets ?W)) * length wallet_cols"
    by blast
  have ne: "?s \<noteq> []" by simp
  from t ne have m: "map (\<lambda>r. (r ''Month'', r ''Referrals'')) (rows (referral_totals_by_month ?s ?R)) =
          map (\<lambda>b. (b ''Month'', Num (row_sum ?s b))) (rows (referral_by_source ?s ?R))"
    by blast
  have "map (\<lambda>b. (b ''Month'', Num (row_sum ?s b))) (rows (referral_by_source ?s ?R)) =
        map (\<lambda>(m, a, b). (m, Num (as_num a + as_num b)))
          (map (\<lambda>b. (b ''Month'', b ''Twitter'', b ''Discord'')) (rows (referral_by_source ?s ?R)))"
    by (simp add: row_sum_def)
  also have "\<dots> = [(Stamp (Timestamp (Date 2025 1 1) 0), Num 7), (Stamp (Timestamp (Date 2025 3 1) 0), Num 6)]"
    unfolding referral_by_source_example by simp
  finally show ?thesis
    using n l m by (simp add: wallet_cols_def)
qed

section \<open>Facts about resampling\<close>

lemma month_range_Cons:
  "month_range (k # ks) = [Min (set (k # ks)) ..< Suc (Max (set (k # ks)))]"
  by (simp only: month_range_def list.case Min.set_eq_fold Max.set_eq_fold)

lemma month_range_Nil [simp]: "month_range [] = []"
  by (simp add: month_range_def)

lemma month_range_eq:
  "ks \<noteq> [] \<Longrightarrow> month_range ks = [Min (set ks) ..< Suc (Max (set ks))]"
  using month_range_Cons by (cases ks) blast+

lemma distinct_month_range [simp]: "distinct (month_range ks)"
  by (cases ks) (simp_all only: month_range_Cons month_range_Nil distinct_upt distinct.simps)

lemma sorted_month_range [simp]: "sorted (month_range ks)"
  by (cases ks) (simp_all only: month_range_Cons month_range_Nil sorted_upt sorted_wrt.simps)

lemma set_month_range: "set ks \<subseteq> set (month_range ks)"
proof
  fix x assume x: "x \<in> set ks"
  then have ne: "ks \<noteq> []" by auto
  from x have "Min (set ks) \<le> x" "x \<le> Max (set ks)"
    by simp_all
  then have "x \<in> set [Min (set ks) ..< Suc (Max (set ks))]"
    by (simp only: set_upt atLeastLessThan_iff less_Suc_eq_le simp_thms)
  with month_range_eq [OF ne] show "x \<in> set (month_range ks)"
    by metis
qed

lemma rows_resample:
  "rows (resample_MS_sum f) =
     map (\<lambda>k. bucket ''Date'' k (numeric_columns f) (in_month ''Date'' k (stamped ''Date'' (rows f))))
       (month_range (map (\<lambda>r. month_of (r ''Date'')) (stamped ''Date'' (rows f))))"
  by (simp add: resample_MS_sum_def Let_def)

lemma columns_resample:
  "columns (resample_MS_sum f) = (''Date'', Datetime) # map (\<lambda>c. (c, Number)) (numeric_columns f)"
  by (simp add: resample_MS_sum_def Let_def)

lemma col_sum_resample:
  assumes "c \<noteq> ''Date''" "c \<in> set (numeric_columns f)"
  shows "col_sum c (rows (resample_MS_sum f)) = col_sum c (stamped ''Date'' (rows f))"
proof -
  let ?rs = "stamped ''Date'' (rows f)"
  let ?ks = "month_range (map (\<lambda>r. month_of (r ''Date'')) ?rs)"
  have "col_sum c (rows (resample_MS_sum f)) =
        sum_list (map (\<lambda>k. sum_list (map (\<lambda>r. as_num (r c)) (filter (\<lambda>r. month_of (r ''Date'') = k) ?rs))) ?ks)"
    using assms by (simp add: rows_resample col_sum_def comp_def as_num_bucket in_month_def)
  also have "\<dots> = sum_list (map (\<lambda>r. as_num (r c)) ?rs)"
    using set_month_range [of "map (\<lambda>r. month_of (r ''Date'')) ?rs"]
    by (intro sum_groups) simp_all
  finally show ?thesis by (simp add: col_sum_def)
qed

lemma empty_month_zero:
  assumes "k \<notin> (\<lambda>r. month_of (r key)) ` set rs" "c \<noteq> key" "c \<in> set cs"
  shows "bucket key k cs (in_month key k rs) c = Num 0"
proof -
  have "in_month key k rs = []"
    using assms(1) by (auto simp: in_month_def filter_empty_conv)
  with assms show ?thesis by (simp add: bucket_def col_sum_def)
qed

lemma rows_tsdf [simp]: "rows (tsdf t) = filter (\<lambda>r. on_or_after (Date 2025 1 1) (r ''Date'')) (rows t)"
  by (simp add: tsdf_def)

lemma stamped_tsdf [simp]: "stamped ''Date'' (rows (tsdf t)) = rows (tsdf t)"
  by (simp add: stamped_on_or_after)

section \<open>Per-category totals\<close>

lemma col_sum_groupby_with_Month:
  assumes "c \<noteq> ''Month''" "c \<in> set cs"
  shows "col_sum c (rows (groupby_Month_sum cs (with_Month f))) = col_sum c (stamped ''Date'' (rows f))"
  using assms by (simp add: col_sum_groupby stamped_with_Month col_sum_map_upd)

lemma col_sum_monthly_after:
  assumes "c \<noteq> ''Month''" "c \<in> set cs"
  shows "col_sum c (rows (groupby_Month_sum cs (with_Month (select_rows (\<lambda>r. after d (r ''Date'')) f)))) =
         col_sum c (filter (\<lambda>r. after d (r ''Date'')) (rows f))"
  using assms by (simp add: col_sum_groupby_with_Month stamped_after)

lemma col_sum_monthly_on_or_after:
  assumes "c \<noteq> ''Month''" "c \<in> set cs"
  shows "col_sum c (rows (groupby_Month_sum cs (with_Month (select_rows (\<lambda>r. on_or_after d (r ''Date'')) f)))) =
         col_sum c (filter (\<lambda>r. on_or_after d (r ''Date'')) (rows f))"
  using assms by (simp add: col_sum_groupby_with_Month stamped_on_or_after)

lemma astype_int_totals:
  "astype_int (totals cs f) = map (\<lambda>c. (c, trunc (col_sum c (rows f)))) cs"
  by (simp add: astype_int_def totals_def comp_def)

lemma platform_totals_window:
  "platform_totals w =
     map (\<lambda>c. (c, trunc (col_sum c (filter (\<lambda>r. after (Date 2024 12 31) (r ''Date'')) (rows w))))) wallet_cols"
  unfolding platform_totals_def astype_int_totals monthly_wallets_def wallet_df_filtered_def
  by (rule map_cong) (auto simp: col_sum_monthly_after wallet_cols_def)

lemma referral_totals_window:
  assumes "''Month'' \<notin> set srcs"
  shows "referral_totals srcs f =
     map (\<lambda>c. (c, trunc (col_sum c (filter (\<lambda>r. on_or_after (Date 2025 1 1) (r ''Date'')) (rows f))))) srcs"
  unfolding referral_totals_def astype_int_totals referral_by_source_def rdf_def
proof (rule map_cong [OF refl])
  fix c assume c: "c \<in> set srcs"
  with assms have "c \<noteq> ''Month''" by blast
  from col_sum_monthly_on_or_after [OF this c]
  show "(c, trunc (col_sum c (rows (groupby_Month_sum srcs (with_Month
            (select_rows (\<lambda>r. on_or_after (Date 2025 1 1) (r ''Date'')) f)))))) =
        (c, trunc (col_sum c (filter (\<lambda>r. on_or_after (Date 2025 1 1) (r ''Date'')) (rows f))))"
    by (simp only:)
qed

lemma total_fee_window:
  "total_fee fees =
     trunc (col_sum ''TxnFee(POL)'' (filter (\<lambda>r. after (Date 2024 12 31) (r ''Date'')) (rows fees)))"
  unfolding total_fee_def monthly_fee_def fdf_def
  by (simp add: col_sum_monthly_after)

lemma rows_monthly_tokens:
  "rows (monthly_tokens t) =
     (if ''Total'' \<in> set (column_names (assign ''Month'' Datetime (\<lambda>r. r ''Date'') (resample_MS_sum (tsdf t))))
      then map (\<lambda>r. r(''Month'' := r ''Date'')) (rows (resample_MS_sum (tsdf t)))
      else map (\<lambda>r. r(''Total'' := Num (row_sum (token_source_cols t) r)))
             (map (\<lambda>r. r(''Month'' := r ''Date'')) (rows (resample_MS_sum (tsdf t)))))"
  by (simp add: monthly_tokens_def Let_def)

lemma col_sum_monthly_tokens:
  assumes "c \<in> set (token_source_cols t)" "c \<noteq> ''Month''" "c \<noteq> ''Date''"
  shows "col_sum c (rows (monthly_tokens t)) =
         col_sum c (filter (\<lambda>r. on_or_after (Date 2025 1 1) (r ''Date'')) (rows t))"
proof -
  from assms(1) have c: "c \<noteq> ''Total''" "c \<in> set (numeric_columns (tsdf t))"
    by (auto simp: token_source_cols_def)
  have "col_sum c (rows (monthly_tokens t)) = col_sum c (rows (resample_MS_sum (tsdf t)))"
    using c assms by (simp add: rows_monthly_tokens col_sum_def comp_def del: rows_assign)
  also have "\<dots> = col_sum c (rows (tsdf t))"
    using c assms by (simp add: col_sum_resample stamped_on_or_after)
  finally show ?thesis by simp
qed


lemmas token_eval = normalize_tokens_def tsdf_def token_source_cols_def numeric_columns_def
  total_tokens_by_source_def resample_MS_sum_def month_range_def monthly_tokens_def total_tokens_def

lemma tokens_columns_example:
  "columns (normalize_tokens (read_sheet token_sheet)) =
     [(''Date'', Datetime), (''Airdrop'', Number), (''Staking'', Number)]"
  by (simp add: token_sheet_def sheet_eval token_eval)

lemma tokens_normal_example:
  "map (\<lambda>r. (r ''Date'', r ''Airdrop'', r ''Staking'')) (rows (normalize_tokens (read_sheet token_sheet))) =
    [(Stamp (Timestamp (Date 2024 12 31) 0), Num 7, Num 0),
     (Stamp (Timestamp (Date 2025 1 15) 0), Num 3, Num 2),
     (Stamp (Timestamp (Date 2025 3 2) 0), Num 1, Num 4)]"
  by (simp add: token_sheet_def sheet_eval token_eval)

lemma token_source_cols_example:
  "token_source_cols (normalize_tokens (read_sheet token_sheet)) = [''Airdrop'', ''Staking'']"
  by (simp add: token_source_cols_def numeric_columns_def tsdf_def tokens_columns_example)

lemma fee_fractional_example:
  "map (\<lambda>b. (b ''Month'', b ''TxnFee(POL)''))
     (rows (monthly_fee (normalize_dates (read_sheet fee_sheet_fractional)))) =
    [(Stamp (Timestamp (Date 2025 1 1) 0), Num (1 / 2)), (Stamp (Timestamp (Date 2025 2 1) 0), Num (7 / 10))]"
  "col_sum ''TxnFee(POL)'' (rows (monthly_fee (normalize_dates (read_sheet fee_sheet_fractional)))) = 6 / 5"
  "col_sum ''TxnFee(POL)'' (filter (\<lambda>r. after (Date 2024 12 31) (r ''Date''))
     (rows (normalize_dates (read_sheet fee_sheet_fractional)))) = 6 / 5"
  "total_fee (normalize_dates (read_sheet fee_sheet_fractional)) = 1"
  by (simp_all add: total_fee_def monthly_fee_def fdf_def fee_sheet_fractional_def
      sheet_eval agg_eval)



section \<open>Grand totals\<close>

lemma series_sum_totals:
  "series_sum (totals cs f) = sum_list (map (row_sum cs) (rows f))"
proof -
  have "series_sum (totals cs f) = sum_list (map (\<lambda>c. sum_list (map (\<lambda>r. as_num (r c)) (rows f))) cs)"
    by (simp add: series_sum_def totals_def comp_def col_sum_def)
  also have "\<dots> = sum_list (map (\<lambda>r. sum_list (map (\<lambda>c. as_num (r c)) cs)) (rows f))"
    by (rule sum_list_swap)
  finally show ?thesis by (simp add: row_sum_def [abs_def])
qed

lemma col_sum_assigned:
  "col_sum c (rows (assign c ty g f)) = sum_list (map (\<lambda>r. as_num (g r)) (rows f))"
  by (simp add: col_sum_def comp_def)

lemma col_sum_melt: "col_sum n (rows (melt i cs v n f)) = series_sum (totals cs f)"
proof -
  have "col_sum n (rows (melt i cs v n f)) = sum_list (map (\<lambda>c. sum_list (map (\<lambda>r. as_num (r c)) (rows f))) cs)"
    unfolding rows_melt by (induction cs) (simp_all add: col_sum_def comp_def)
  then show ?thesis
    by (simp add: series_sum_def totals_def comp_def col_sum_def)
qed

lemma referral_grand_total_by_month:
  "col_sum ''Referrals'' (rows (referral_totals_by_month srcs f)) =
     series_sum (totals srcs (referral_by_source srcs f))"
proof -
  have "col_sum ''Referrals'' (rows (referral_totals_by_month srcs f)) =
        col_sum ''Referrals'' (stamped ''Month'' (rows (referral_melted srcs f)))"
    unfolding referral_totals_by_month_def by (rule col_sum_groupby) simp_all
  also have "\<dots> = col_sum ''Referrals'' (rows (referral_melted srcs f))"
    unfolding referral_melted_def referral_by_source_def by (simp add: stamped_melt_groupby)
  finally show ?thesis
    by (simp add: referral_melted_def col_sum_melt)
qed

lemma referral_grand_total_Total:
  "col_sum ''Total'' (rows (referral_by_source_Total srcs f)) =
     series_sum (totals srcs (referral_by_source srcs f))"
  by (simp add: referral_by_source_Total_def col_sum_assigned series_sum_totals del: rows_assign)

lemma series_sum_astype_int:
  "series_sum (astype_int (totals cs f)) = sum_list (map (\<lambda>c. trunc (col_sum c (rows f))) cs)"
  by (simp add: series_sum_def astype_int_totals comp_def)

lemma series_sum_whole:
  assumes "\<forall>c \<in> set cs. whole (col_sum c (rows f))"
  shows "of_int (series_sum (astype_int (totals cs f))) = series_sum (totals cs f)"
proof -
  have "of_int (sum_list (map (\<lambda>c. trunc (col_sum c (rows f))) cs)) =
        sum_list (map (\<lambda>c. col_sum c (rows f)) cs)"
    using assms by (induction cs) (simp_all add: whole_trunc)
  moreover have "series_sum (totals cs f) = sum_list (map (\<lambda>c. col_sum c (rows f)) cs)"
    by (simp add: series_sum_def totals_def comp_def)
  ultimately show ?thesis
    by (simp only: series_sum_astype_int)
qed

lemma column_names_resample:
  "column_names (resample_MS_sum f) = ''Date'' # numeric_columns f"
  by (simp add: column_names_def columns_resample comp_def)

lemma Total_in_monthly:
  "''Total'' \<in> set (column_names (assign ''Month'' Datetime g (resample_MS_sum f))) \<longleftrightarrow>
   ''Total'' \<in> set (numeric_columns f)"
  by (simp add: column_names_assign column_names_resample)

lemma numeric_columns_tsdf [simp]: "numeric_columns (tsdf t) = numeric_columns t"
  by (simp add: numeric_columns_def tsdf_def)

lemma monthly_tokens_computed:
  assumes "''Total'' \<notin> set (numeric_columns t)"
  shows "monthly_tokens t =
     assign ''Total'' Number (\<lambda>r. Num (row_sum (token_source_cols t) r))
       (assign ''Month'' Datetime (\<lambda>r. r ''Date'') (resample_MS_sum (tsdf t)))"
  using assms by (simp add: monthly_tokens_def Let_def Total_in_monthly)

lemma monthly_tokens_stored:
  assumes "''Total'' \<in> set (numeric_columns t)"
  shows "monthly_tokens t = assign ''Month'' Datetime (\<lambda>r. r ''Date'') (resample_MS_sum (tsdf t))"
  using assms by (simp add: monthly_tokens_def Let_def Total_in_monthly)

lemma row_sum_upd: "c \<notin> set cs \<Longrightarrow> row_sum cs (r(c := v)) = row_sum cs r"
  by (induction cs) (auto simp: row_sum_def)

lemma Total_not_source [simp]: "''Total'' \<notin> set (token_source_cols t)"
  by (simp add: token_source_cols_def)

lemma total_tokens_computed:
  assumes "''Total'' \<notin> set (numeric_columns t)"
  shows "total_tokens t = series_sum (totals (token_source_cols t) (monthly_tokens t))"
proof -
  let ?m = "assign ''Month'' Datetime (\<lambda>r. r ''Date'') (resample_MS_sum (tsdf t))"
  let ?cs = "token_source_cols t"
  have rows_eq: "rows (monthly_tokens t) = map (\<lambda>r. r(''Total'' := Num (row_sum ?cs r))) (rows ?m)"
    unfolding monthly_tokens_computed [OF assms] by (rule rows_assign)
  have "total_tokens t = sum_list (map (row_sum ?cs) (rows ?m))"
    unfolding total_tokens_def rows_eq by (simp add: col_sum_def comp_def del: rows_assign)
  also have "\<dots> = sum_list (map (row_sum ?cs) (rows (monthly_tokens t)))"
    unfolding rows_eq by (simp add: comp_def row_sum_upd del: rows_assign)
  finally show ?thesis by (simp add: series_sum_totals)
qed

lemma total_tokens_window:
  assumes "''Total'' \<notin> set (numeric_columns t)" "''Date'' \<notin> set (numeric_columns t)"
    "''Month'' \<notin> set (numeric_columns t)"
  shows "total_tokens t = series_sum (totals (token_source_cols t) (tsdf t))"
proof -
  have "(c, col_sum c (rows (monthly_tokens t))) = (c, col_sum c (rows (tsdf t)))"
    if "c \<in> set (token_source_cols t)" for c
  proof -
    from that assms have "c \<noteq> ''Month''" "c \<noteq> ''Date''"
      by (auto simp: token_source_cols_def)
    with that show ?thesis by (simp add: col_sum_monthly_tokens)
  qed
  then have "totals (token_source_cols t) (monthly_tokens t) = totals (token_source_cols t) (tsdf t)"
    unfolding totals_def by (intro map_cong refl)
  with total_tokens_computed [OF assms(1)] show ?thesis by simp
qed

lemma total_tokens_stored:
  assumes "''Total'' \<in> set (numeric_columns t)"
  shows "total_tokens t = col_sum ''Total'' (filter (\<lambda>r. on_or_after (Date 2025 1 1) (r ''Date'')) (rows t))"
proof -
  have "total_tokens t = col_sum ''Total'' (rows (resample_MS_sum (tsdf t)))"
    unfolding total_tokens_def monthly_tokens_stored [OF assms]
    by (simp add: col_sum_def comp_def)
  also have "\<dots> = col_sum ''Total'' (stamped ''Date'' (rows (tsdf t)))"
    using assms by (intro col_sum_resample) simp_all
  finally show ?thesis by (simp add: stamped_on_or_after)
qed

text \<open>The per-category sums are whole numbers when the cells of the category are.\<close>

lemma whole_col_sum: "list_all (\<lambda>r. whole (as_num (r c))) rs \<Longrightarrow> whole (col_sum c rs)"
  unfolding col_sum_def by (rule whole_sum_list) (simp add: list.pred_map comp_def)

lemma list_all_filter: "list_all P xs \<Longrightarrow> list_all P (filter Q xs)"
  by (simp add: list_all_iff)

lemma whole_monthly_after:
  assumes "c \<noteq> ''Month''" "c \<in> set cs" "list_all (\<lambda>r. whole (as_num (r c))) (rows f)"
  shows "whole (col_sum c (rows (groupby_Month_sum cs
           (with_Month (select_rows (\<lambda>r. after d (r ''Date'')) f)))))"
  unfolding col_sum_monthly_after [OF assms(1,2)]
  by (intro whole_col_sum list_all_filter assms(3))

lemma whole_monthly_on_or_after:
  assumes "c \<noteq> ''Month''" "c \<in> set cs" "list_all (\<lambda>r. whole (as_num (r c))) (rows f)"
  shows "whole (col_sum c (rows (groupby_Month_sum cs
           (with_Month (select_rows (\<lambda>r. on_or_after d (r ''Date'')) f)))))"
  unfolding col_sum_monthly_on_or_after [OF assms(1,2)]
  by (intro whole_col_sum list_all_filter assms(3))

lemma whole_category_totals:
  "c \<in> set wallet_cols \<Longrightarrow> list_all (\<lambda>r. whole (as_num (r c))) (rows w) \<Longrightarrow>
     whole (col_sum c (rows (monthly_wallets w)))"
  "c \<in> set srcs \<Longrightarrow> c \<noteq> ''Month'' \<Longrightarrow> list_all (\<lambda>r. whole (as_num (r c))) (rows f) \<Longrightarrow>
     whole (col_sum c (rows (referral_by_source srcs f)))"
  "list_all (\<lambda>r. whole (as_num (r ''TxnFee(POL)''))) (rows fees) \<Longrightarrow>
     whole (col_sum ''TxnFee(POL)'' (rows (monthly_fee fees)))"
  unfolding monthly_wallets_def wallet_df_filtered_def referral_by_source_def rdf_def
    monthly_fee_def fdf_def
  by (auto intro!: whole_monthly_after whole_monthly_on_or_after simp: wallet_cols_def)


lemma tokens_Total_columns_example:
  "columns (normalize_tokens (read_sheet token_sheet_Total)) =
     [(''Date'', Datetime), (''Airdrop'', Number), (''Staking'', Number), (''Total'', Number)]"
  by (simp add: token_sheet_Total_def sheet_eval token_eval)

lemma token_source_cols_Total_example:
  "token_source_cols (normalize_tokens (read_sheet token_sheet_Total)) = [''Airdrop'', ''Staking'']"
  by (simp add: token_source_cols_def numeric_columns_def tsdf_def tokens_Total_columns_example)

lemma monthly_tokens_example:
  "map (\<lambda>b. (b ''Month'', b ''Airdrop'', b ''Staking'', b ''Total''))
     (rows (monthly_tokens (normalize_tokens (read_sheet token_sheet)))) =
    [(Stamp (Timestamp (Date 2025 1 1) 0), Num 3, Num 2, Num 5),
     (Stamp (Timestamp (Date 2025 2 1) 0), Num 0, Num 0, Num 0),
     (Stamp (Timestamp (Date 2025 3 1) 0), Num 1, Num 4, Num 5)]"
  by (simp add: token_sheet_def sheet_eval token_eval agg_eval)

lemma monthly_tokens_Total_example:
  "map (\<lambda>b. (b ''Month'', b ''Airdrop'', b ''Staking'', b ''Total''))
     (rows (monthly_tokens (normalize_tokens (read_sheet token_sheet_Total)))) =
    [(Stamp (Timestamp (Date 2025 1 1) 0), Num 3, Num 2, Num 100),
     (Stamp (Timestamp (Date 2025 2 1) 0), Num 0, Num 0, Num 0),
     (Stamp (Timestamp (Date 2025 3 1) 0), Num 1, Num 4, Num 5)]"
  by (simp add: token_sheet_Total_def sheet_eval token_eval agg_eval)

lemma col_sum_via: "col_sum c rs = sum_list (map as_num (map (\<lambda>r. r c) rs))"
  by (simp add: col_sum_def comp_def)



section \<open>Monthly buckets\<close>

lemma months_resample:
  "map (\<lambda>b. month_of (b ''Date'')) (rows (resample_MS_sum f)) =
     month_range (map (\<lambda>r. month_of (r ''Date'')) (stamped ''Date'' (rows f)))"
  by (simp add: rows_resample comp_def)

lemma Month_of_monthly_tokens:
  "map (\<lambda>b. b ''Month'') (rows (monthly_tokens t)) = map (\<lambda>b. b ''Date'') (rows (resample_MS_sum (tsdf t)))"
  by (simp add: rows_monthly_tokens comp_def del: rows_assign)

lemma months_monthly_tokens:
  "map (\<lambda>b. month_of (b ''Month'')) (rows (monthly_tokens t)) =
     month_range (map (\<lambda>r. month_of (r ''Date'')) (rows (tsdf t)))"
proof -
  have "map (\<lambda>b. month_of (b ''Month'')) (rows (monthly_tokens t)) =
        map month_of (map (\<lambda>b. b ''Month'') (rows (monthly_tokens t)))"
    by (simp add: comp_def)
  also have "\<dots> = map (\<lambda>b. month_of (b ''Date'')) (rows (resample_MS_sum (tsdf t)))"
    unfolding Month_of_monthly_tokens by (simp add: comp_def)
  finally show ?thesis
    by (simp only: months_resample stamped_tsdf)
qed

lemma monthly_tokens_bucket:
  assumes "b \<in> set (rows (monthly_tokens t))"
  obtains k where "k \<in> set (month_range (map (\<lambda>r. month_of (r ''Date'')) (rows (tsdf t))))"
    and "b ''Month'' = Stamp (midnight (month_start k))"
    and "\<And>c. c \<noteq> ''Month'' \<Longrightarrow> c \<noteq> ''Total'' \<Longrightarrow>
           b c = bucket ''Date'' k (numeric_columns (tsdf t)) (in_month ''Date'' k (rows (tsdf t))) c"
proof -
  let ?ks = "month_range (map (\<lambda>r. month_of (r ''Date'')) (rows (tsdf t)))"
  let ?bk = "\<lambda>k. bucket ''Date'' k (numeric_columns (tsdf t)) (in_month ''Date'' k (rows (tsdf t)))"
  have rs: "rows (resample_MS_sum (tsdf t)) = map ?bk ?ks"
    by (simp only: rows_resample stamped_tsdf)
  from assms obtain r where r: "r \<in> set (rows (resample_MS_sum (tsdf t)))"
    and b: "b = r(''Month'' := r ''Date'') \<or>
            b = (r(''Month'' := r ''Date''))(''Total'' := Num (row_sum (token_source_cols t) (r(''Month'' := r ''Date''))))"
    by (auto simp: rows_monthly_tokens simp del: rows_assign split: if_splits)
  from r rs obtain k where k: "k \<in> set ?ks" "r = ?bk k"
    by auto
  from b k have "b ''Month'' = Stamp (midnight (month_start k))"
    by auto
  moreover from b k have "b c = ?bk k c" if "c \<noteq> ''Month''" "c \<noteq> ''Total''" for c
    using that by auto
  ultimately show ?thesis using k(1) that by blast
qed

lemma monthly_tokens_zero_fill:
  assumes "b \<in> set (rows (monthly_tokens t))"
    and "month_of (b ''Month'') \<notin> (\<lambda>r. month_of (r ''Date'')) ` set (rows (tsdf t))"
    and "c \<in> set (token_source_cols t)" "c \<noteq> ''Month''" "c \<noteq> ''Date''"
  shows "b c = Num 0"
proof -
  from assms(1) obtain k where k: "b ''Month'' = Stamp (midnight (month_start k))"
    and v: "\<And>c. c \<noteq> ''Month'' \<Longrightarrow> c \<noteq> ''Total'' \<Longrightarrow>
           b c = bucket ''Date'' k (numeric_columns (tsdf t)) (in_month ''Date'' k (rows (tsdf t))) c"
    by (rule monthly_tokens_bucket) blast
  from k have "month_of (b ''Month'') = k" by simp
  with assms(2) have "k \<notin> (\<lambda>r. month_of (r ''Date'')) ` set (rows (tsdf t))" by simp
  moreover from assms(3) have "c \<noteq> ''Total''" "c \<in> set (numeric_columns (tsdf t))"
    by (auto simp: token_source_cols_def)
  ultimately show ?thesis
    using v [of c] assms(4,5) by (simp add: empty_month_zero)
qed

lemma months_groupby_with_Month:
  "map (\<lambda>b. month_of (b ''Month'')) (rows (groupby_Month_sum cs (with_Month f))) =
     sort (remdups (map (\<lambda>r. month_of (r ''Date'')) (stamped ''Date'' (rows f))))"
  by (simp add: months_groupby stamped_with_Month group_months_def comp_def)

lemma months_monthly_wallets:
  "map (\<lambda>b. month_of (b ''Month'')) (rows (monthly_wallets w)) =
     sort (remdups (map (\<lambda>r. month_of (r ''Date''))
       (filter (\<lambda>r. after (Date 2024 12 31) (r ''Date'')) (rows w))))"
  unfolding monthly_wallets_def wallet_df_filtered_def months_groupby_with_Month
  by (simp only: rows_select_rows stamped_after)

lemma months_referral_by_source:
  "map (\<lambda>b. month_of (b ''Month'')) (rows (referral_by_source srcs f)) =
     sort (remdups (map (\<lambda>r. month_of (r ''Date''))
       (filter (\<lambda>r. on_or_after (Date 2025 1 1) (r ''Date'')) (rows f))))"
  unfolding referral_by_source_def rdf_def months_groupby_with_Month
  by (simp only: rows_select_rows stamped_on_or_after)

lemma months_monthly_fee:
  "map (\<lambda>b. month_of (b ''Month'')) (rows (monthly_fee fees)) =
     sort (remdups (map (\<lambda>r. month_of (r ''Date''))
       (filter (\<lambda>r. after (Date 2024 12 31) (r ''Date'')) (rows fees))))"
  unfolding monthly_fee_def fdf_def months_groupby_with_Month
  by (simp only: rows_select_rows stamped_after)

text \<open>
  Claim C1, amended. The monthly token aggregate (\<^verbatim>\<open>resample("MS")\<close>, line 40) has exactly
  one row for every calendar month from the month of the earliest window record to the
  month of the latest, in chronological order; it is empty when no record is in the
  window; the row of a month without a record holds 0 for every token source. The
  wallet, referral and fee aggregates (\<^verbatim>\<open>groupby("Month")\<close>, lines 74, 116 and 160) have
  exactly one row for every calendar month in which a window record falls, in
  chronological order: a month without a record has no row.
\<close>

theorem monthly_aggregation:
  "(rows (tsdf t) = [] \<longrightarrow> rows (monthly_tokens t) = [])
   \<and> (rows (tsdf t) \<noteq> [] \<longrightarrow>
        map (\<lambda>b. month_of (b ''Month'')) (rows (monthly_tokens t)) =
          [Min ((\<lambda>r. month_of (r ''Date'')) ` set (rows (tsdf t))) ..<
           Suc (Max ((\<lambda>r. month_of (r ''Date'')) ` set (rows (tsdf t))))])
   \<and> (\<forall>b \<in> set (rows (monthly_tokens t)).
        b ''Month'' = Stamp (midnight (month_start (month_of (b ''Month'')))))
   \<and> (\<forall>b \<in> set (rows (monthly_tokens t)). \<forall>c \<in> set (token_source_cols t).
        month_of (b ''Month'') \<notin> (\<lambda>r. month_of (r ''Date'')) ` set (rows (tsdf t))
        \<and> c \<noteq> ''Month'' \<and> c \<noteq> ''Date'' \<longrightarrow> b c = Num 0)
   \<and> map (\<lambda>b. month_of (b ''Month'')) (rows (monthly_wallets w)) =
       sort (remdups (map (\<lambda>r. month_of (r ''Date''))
         (filter (\<lambda>r. after (Date 2024 12 31) (r ''Date'')) (rows w))))
   \<and> map (\<lambda>b. month_of (b ''Month'')) (rows (referral_by_source srcs f)) =
       sort (remdups (map (\<lambda>r. month_of (r ''Date''))
         (filter (\<lambda>r. on_or_after (Date 2025 1 1) (r ''Date'')) (rows f))))
   \<and> map (\<lambda>b. month_of (b ''Month'')) (rows (monthly_fee fees)) =
       sort (remdups (map (\<lambda>r. month_of (r ''Date''))
         (filter (\<lambda>r. after (Date 2024 12 31) (r ''Date'')) (rows fees))))"
proof -
  let ?ks = "map (\<lambda>r. month_of (r ''Date'')) (rows (tsdf t))"
  have 1: "rows (monthly_tokens t) = []" if "rows (tsdf t) = []"
    using months_monthly_tokens [of t] that by (simp del: rows_tsdf)
  have 2: "map (\<lambda>b. month_of (b ''Month'')) (rows (monthly_tokens t)) =
          [Min ((\<lambda>r. month_of (r ''Date'')) ` set (rows (tsdf t))) ..<
           Suc (Max ((\<lambda>r. month_of (r ''Date'')) ` set (rows (tsdf t))))]"
    if "rows (tsdf t) \<noteq> []"
  proof -
    from that have "?ks \<noteq> []" by (simp del: rows_tsdf)
    from month_range_eq [OF this] show ?thesis
      by (simp only: months_monthly_tokens set_map)
  qed
  have 3: "b ''Month'' = Stamp (midnight (month_start (month_of (b ''Month''))))"
    if "b \<in> set (rows (monthly_tokens t))" for b
    using that by (rule monthly_tokens_bucket) simp
  have 4: "b c = Num 0"
    if "b \<in> set (rows (monthly_tokens t))" "c \<in> set (token_source_cols t)"
      "month_of (b ''Month'') \<notin> (\<lambda>r. month_of (r ''Date'')) ` set (rows (tsdf t))"
      "c \<noteq> ''Month''" "c \<noteq> ''Date''" for b c
    using that by (intro monthly_tokens_zero_fill)
  show ?thesis
    using 1 2 3 4 months_monthly_wallets [of w] months_referral_by_source [of srcs f]
      months_monthly_fee [of fees]
    by blast
qed

lemma wallets_normal_example:
  "map (\<lambda>r. r ''Date'') (rows (normalize_dates (read_sheet wallet_sheet))) =
    [Stamp (Timestamp (Date 2025 1 5) 0), Stamp (Timestamp (Date 2025 1 20) 0),
     Stamp (Timestamp (Date 2025 3 1) 0)]"
  by (simp add: wallet_sheet_def sheet_eval)

text \<open>
  The claim as stated fails for the wallet domain: with records in January and March
  2025 only, the aggregate has two rows, and none for February.
\<close>

theorem wallet_gap_counterexample:
  "map (\<lambda>r. r ''Date'') (rows (normalize_dates (read_sheet wallet_sheet))) =
    [Stamp (Timestamp (Date 2025 1 5) 0), Stamp (Timestamp (Date 2025 1 20) 0),
     Stamp (Timestamp (Date 2025 3 1) 0)]
   \<and> map (\<lambda>b. b ''Month'') (rows (monthly_wallets (normalize_dates (read_sheet wallet_sheet)))) =
    [Stamp (Timestamp (Date 2025 1 1) 0), Stamp (Timestamp (Date 2025 3 1) 0)]
   \<and> length (rows (monthly_wallets (normalize_dates (read_sheet wallet_sheet)))) \<noteq> 3"
  using arg_cong [OF monthly_wallets_example, of "map fst"]
    arg_cong [OF monthly_wallets_example, of length]
  by (simp add: wallets_normal_example comp_def)

lemma tsdf_months_example:
  "map (\<lambda>r. month_of (r ''Date'')) (rows (tsdf (normalize_tokens (read_sheet token_sheet)))) =
     [24300, 24302]"
  by (simp add: token_sheet_def sheet_eval token_eval agg_eval)

lemma wallet_months_example:
  "map (\<lambda>r. month_of (r ''Date''))
     (filter (\<lambda>r. after (Date 2024 12 31) (r ''Date'')) (rows (normalize_dates (read_sheet wallet_sheet)))) =
     [24300, 24300, 24302]"
  by (simp add: wallet_sheet_def sheet_eval agg_eval)

theorem monthly_aggregation_witness:
  "rows (tsdf (normalize_tokens (read_sheet token_sheet))) \<noteq> []
   \<and> map (\<lambda>b. month_of (b ''Month'')) (rows (monthly_tokens (normalize_tokens (read_sheet token_sheet)))) =
       [24300, 24301, 24302]
   \<and> map (\<lambda>b. b ''Month'') (rows (monthly_tokens (normalize_tokens (read_sheet token_sheet)))) =
       [Stamp (Timestamp (Date 2025 1 1) 0), Stamp (Timestamp (Date 2025 2 1) 0),
        Stamp (Timestamp (Date 2025 3 1) 0)]
   \<and> rows (monthly_tokens (normalize_tokens (read_sheet token_sheet))) ! 1
       \<in> set (rows (monthly_tokens (normalize_tokens (read_sheet token_sheet))))
   \<and> ''Airdrop'' \<in> set (token_source_cols (normalize_tokens (read_sheet token_sheet)))
   \<and> (rows (monthly_tokens (normalize_tokens (read_sheet token_sheet))) ! 1) ''Airdrop'' = Num 0
   \<and> map (\<lambda>b. month_of (b ''Month'')) (rows (monthly_wallets (normalize_dates (read_sheet wallet_sheet)))) =
       [24300, 24302]"
proof -
  let ?T = "normalize_tokens (read_sheet token_sheet)"
  let ?W = "normalize_dates (read_sheet wallet_sheet)"
  let ?M = "(\<lambda>r. month_of (r ''Date'')) ` set (rows (tsdf ?T))"
  let ?b = "rows (monthly_tokens ?T) ! 1"
  note t = monthly_aggregation [of ?T ?W "[]" ?W ?W]
  have M: "?M = {24300, 24302}"
    using arg_cong [OF tsdf_months_example, of set] by (simp del: rows_tsdf)
  have ne: "rows (tsdf ?T) \<noteq> []"
    using tsdf_months_example by (auto simp del: rows_tsdf)
  from t ne have "map (\<lambda>b. month_of (b ''Month'')) (rows (monthly_tokens ?T)) = [Min ?M ..< Suc (Max ?M)]"
    by blast
  then have months: "map (\<lambda>b. month_of (b ''Month'')) (rows (monthly_tokens ?T)) = [24300, 24301, 24302]"
    unfolding M by (simp add: upt_rec)
  have stamps: "map (\<lambda>b. b ''Month'') (rows (monthly_tokens ?T)) =
       [Stamp (Timestamp (Date 2025 1 1) 0), Stamp (Timestamp (Date 2025 2 1) 0),
        Stamp (Timestamp (Date 2025 3 1) 0)]"
    using arg_cong [OF monthly_tokens_example, of "map fst"] by (simp add: comp_def)
  have len: "length (rows (monthly_tokens ?T)) = 3"
    using arg_cong [OF months, of length] by simp
  then have b: "?b \<in> set (rows (monthly_tokens ?T))"
    by simp
  have "month_of (?b ''Month'') = map (\<lambda>b. month_of (b ''Month'')) (rows (monthly_tokens ?T)) ! 1"
    using len by simp
  then have "month_of (?b ''Month'') = 24301"
    unfolding months by simp
  then have out: "month_of (?b ''Month'') \<notin> ?M"
    unfolding M by simp
  have c: "''Airdrop'' \<in> set (token_source_cols ?T)"
    by (simp add: token_source_cols_example)
  from t b c out have zero: "?b ''Airdrop'' = Num 0"
    by auto
  from t have "map (\<lambda>b. month_of (b ''Month'')) (rows (monthly_wallets ?W)) =
       sort (remdups (map (\<lambda>r. month_of (r ''Date''))
         (filter (\<lambda>r. after (Date 2024 12 31) (r ''Date'')) (rows ?W))))"
    by blast
  then have w: "map (\<lambda>b. month_of (b ''Month'')) (rows (monthly_wallets ?W)) = [24300, 24302]"
    unfolding wallet_months_example by simp
  from ne months stamps b c zero w show ?thesis by blast
qed

section \<open>The store\<close>

lemma keeps_refl [simp]: "keeps h h"
  by (simp add: keeps_def)

lemma keeps_trans: "keeps h1 h2 \<Longrightarrow> keeps h2 h3 \<Longrightarrow> keeps h1 h3"
proof -
  assume a: "keeps h1 h2" "keeps h2 h3"
  then have l: "length h1 \<le> length h2" "length h2 \<le> length h3"
    and t: "take (length h1) h2 = h1" "take (length h2) h3 = h2"
    by (simp_all add: keeps_def)
  have "take (length h1) h3 = take (length h1) (take (length h2) h3)"
    using l by (simp add: min_def)
  also have "\<dots> = h1" using t by simp
  finally show ?thesis using l by (simp add: keeps_def)
qed

lemma keeps_append [simp]: "keeps h (h @ fs)"
  by (simp add: keeps_def)

lemma keeps_alloc: "keeps h (snd (alloc f h))"
  by (simp add: alloc_def)

lemma length_update_frame [simp]: "length (update_frame p g h) = length h"
  by (simp add: update_frame_def)

lemma keeps_update_frame: "keeps h0 h \<Longrightarrow> length h0 \<le> p \<Longrightarrow> keeps h0 (update_frame p g h)"
  by (simp add: keeps_def update_frame_def)

lemma keeps_length: "keeps h h' \<Longrightarrow> p < length h \<Longrightarrow> p < length h'"
  by (simp add: keeps_def)

lemma keeps_deref: "keeps h h' \<Longrightarrow> p < length h \<Longrightarrow> deref h' p = deref h p"
proof -
  assume a: "keeps h h'" "p < length h"
  then have "h' ! p = take (length h) h' ! p" by simp
  also have "\<dots> = h ! p" using a by (simp add: keeps_def)
  finally show ?thesis using a by (simp add: deref_def keeps_def)
qed

lemma deref_alloc_new [simp]: "deref (h @ [f]) (length h) = f"
  by (simp add: deref_def)

lemma deref_alloc_old [simp]: "p < length h \<Longrightarrow> deref (h @ fs) p = deref h p"
  by (simp add: deref_def nth_append)

lemma deref_update_frame:
  "deref (update_frame p g h) q = (if q = p \<and> p < length h then g (deref h p) else deref h q)"
  by (simp add: deref_def update_frame_def)

lemma update_frame_new [simp]: "update_frame (length h) g (h @ [f]) = h @ [g f]"
  by (simp add: update_frame_def)

lemma deref_Cons_0 [simp]: "deref (f # fs) 0 = f"
  by (simp add: deref_def)

lemma deref_Cons_Suc [simp]: "deref (f # fs) (Suc k) = deref fs k"
  by (simp add: deref_def)

lemma update_frame_Cons_0 [simp]: "update_frame 0 g (f # fs) = g f # fs"
  by (simp add: update_frame_def)

lemma update_frame_Cons_Suc [simp]: "update_frame (Suc k) g (f # fs) = f # update_frame k g fs"
  by (simp add: update_frame_def)

lemma deref_Cons_numeral [simp]: "deref (f # fs) (numeral n) = deref fs (pred_numeral n)"
  by (simp add: numeral_eq_Suc)

lemma update_frame_Cons_numeral [simp]:
  "update_frame (numeral n) g (f # fs) = f # update_frame (pred_numeral n) g fs"
  by (simp add: numeral_eq_Suc)

lemma deref_append_ge: "length h \<le> p \<Longrightarrow> deref (h @ fs) p = deref fs (p - length h)"
  by (auto simp: deref_def nth_append)

lemma update_frame_append_ge:
  "length h \<le> p \<Longrightarrow> update_frame p g (h @ fs) = h @ update_frame (p - length h) g fs"
  by (simp add: update_frame_def list_update_append deref_append_ge)

text \<open>Each block of \<^verbatim>\<open>create_figures\<close> returns the datasets defined above and appends
  its new objects to the store.\<close>

lemmas store_eval = alloc_def Let_def deref_append_ge update_frame_append_ge

lemma token_charts_eq:
  "token_charts tp h =
     ((monthly_tokens (deref h tp), total_tokens (deref h tp), token_source_cols (deref h tp)),
      h @ [tsdf (deref h tp), monthly_tokens (deref h tp)])"
  by (simp add: token_charts_def store_eval monthly_tokens_def total_tokens_def
      token_source_cols_def tsdf_def)

lemma wallet_charts_eq:
  "wallet_charts wp h =
     ((wallets_melted (deref h wp), platform_totals (deref h wp)),
      h @ [wallet_df_filtered (deref h wp), monthly_wallets (deref h wp), wallets_melted (deref h wp)])"
  by (simp add: wallet_charts_def store_eval wallets_melted_def platform_totals_def
      monthly_wallets_def wallet_df_filtered_def with_Month_def)

lemma referral_charts_eq:
  "referral_charts rp srcs h =
     ((referral_melted srcs (deref h rp), referral_totals_by_month srcs (deref h rp),
       referral_labels srcs (deref h rp), referral_totals srcs (deref h rp),
       referral_by_source_Total srcs (deref h rp)),
      h @ [rdf (deref h rp), referral_by_source_Total srcs (deref h rp),
           referral_melted srcs (deref h rp), referral_totals_by_month srcs (deref h rp)])"
  by (simp add: referral_charts_def store_eval referral_melted_def referral_totals_by_month_def
      referral_labels_def referral_totals_def referral_by_source_Total_def referral_by_source_def
      rdf_def with_Month_def)

lemma fee_chart_eq:
  "fee_chart fp h =
     ((monthly_fee (deref h fp), total_fee (deref h fp)),
      h @ [fdf (deref h fp), monthly_fee (deref h fp)])"
  by (simp add: fee_chart_def store_eval monthly_fee_def total_fee_def fdf_def with_Month_def)

lemma pie_data_eq:
  "pie_data tp h =
     ((months (deref h tp), monthly_data (deref h tp), month_totals (deref h tp),
       pie_annotations (deref h tp), pies_total (deref h tp)),
      h @ [assign ''Date'' Datetime (\<lambda>r. r ''Date'') (deref h tp),
           assign ''Month'' Object (\<lambda>r. r ''Month_dt'')
             (assign ''Month_dt'' Datetime (\<lambda>r. to_month (r ''Date''))
               (dropna_Date (select_rows (\<lambda>r. on_or_after (Date 2025 1 1) (r ''Date''))
                 (assign ''Date'' Datetime (\<lambda>r. r ''Date'') (deref h tp))))),
           pie_tsdf (deref h tp), melted (deref h tp), monthly_data (deref h tp)])"
  by (simp add: pie_data_def store_eval months_def monthly_data_def month_totals_def
      pie_annotations_def pies_total_def melted_def pie_token_source_cols_def pie_tsdf_def)

lemmas block_eqs = token_charts_eq wallet_charts_eq referral_charts_eq fee_chart_eq pie_data_eq

lemma create_figures_keeps:
  "create_figures e = Inr (figs, h') \<Longrightarrow> keeps (heap e) h'"
  by (auto simp: create_figures_def Let_def block_eqs keeps_def split: if_splits option.splits)

lemma create_figures_ValueError:
  assumes "tokens_source_df e < length (heap e)" "wallet_df e < length (heap e)"
    "referral_df e < length (heap e)" "fee_df e < length (heap e)"
    and "has_column (deref (heap e) (wallet_df e)) ''Date''"
    and "find (\<lambda>c. \<not> has_column (deref (heap e) (wallet_df e)) c) wallet_cols = None"
    and "summable wallet_cols (rows (wallet_df_filtered (deref (heap e) (wallet_df e))))"
    and "has_column (deref (heap e) (referral_df e)) ''Date''"
    and "has_column (deref (heap e) (fee_df e)) ''Date''"
    and "has_column (deref (heap e) (fee_df e)) ''TxnFee(POL)''"
    and "summable [''TxnFee(POL)''] (rows (fdf (deref (heap e) (fee_df e))))"
    and "months (deref (heap e) (tokens_source_df e)) = []"
  shows "create_figures e = Inl (ValueError ''cols must be greater than 0'')"
  using assms by (simp add: create_figures_def Let_def block_eqs)

lemma create_figures_Inr:
  assumes "tokens_source_df e < length (heap e)" "wallet_df e < length (heap e)"
    "referral_df e < length (heap e)" "fee_df e < length (heap e)"
    and "has_column (deref (heap e) (wallet_df e)) ''Date''"
    and "find (\<lambda>c. \<not> has_column (deref (heap e) (wallet_df e)) c) wallet_cols = None"
    and "summable wallet_cols (rows (wallet_df_filtered (deref (heap e) (wallet_df e))))"
    and "has_column (deref (heap e) (referral_df e)) ''Date''"
    and "has_column (deref (heap e) (fee_df e)) ''Date''"
    and "has_column (deref (heap e) (fee_df e)) ''TxnFee(POL)''"
    and "summable [''TxnFee(POL)''] (rows (fdf (deref (heap e) (fee_df e))))"
    and "months (deref (heap e) (tokens_source_df e)) \<noteq> []"
  shows "\<exists>h'. create_figures e = Inr
     (\<lparr>token_bar = (monthly_tokens (deref (heap e) (tokens_source_df e)),
                     format_0f (total_tokens (deref (heap e) (tokens_source_df e)))),
       token_line = (monthly_tokens (deref (heap e) (tokens_source_df e)),
                     format_0f (total_tokens (deref (heap e) (tokens_source_df e)))),
       wallet_pie = (platform_totals (deref (heap e) (wallet_df e)),
                     series_sum (platform_totals (deref (heap e) (wallet_df e)))),
       wallet_bar = (wallets_melted (deref (heap e) (wallet_df e)),
                     platform_totals (deref (heap e) (wallet_df e)),
                     series_sum (platform_totals (deref (heap e) (wallet_df e)))),
       referral_bar = (referral_melted (referral_sources e) (deref (heap e) (referral_df e)),
                       referral_totals_by_month (referral_sources e) (deref (heap e) (referral_df e)),
                       referral_labels (referral_sources e) (deref (heap e) (referral_df e)),
                       series_sum (referral_totals (referral_sources e) (deref (heap e) (referral_df e)))),
       referral_line = referral_by_source_Total (referral_sources e) (deref (heap e) (referral_df e)),
       fee_line = (monthly_fee (deref (heap e) (fee_df e)), total_fee (deref (heap e) (fee_df e))),
       token_source_bar = (total_tokens_by_source (deref (heap e) (tokens_source_df e)),
                           trunc (series_sum (total_tokens_by_source (deref (heap e) (tokens_source_df e))))),
       fig_pies = (months (deref (heap e) (tokens_source_df e)),
                   monthly_data (deref (heap e) (tokens_source_df e)),
                   pie_annotations (deref (heap e) (tokens_source_df e)),
                   pies_total (deref (heap e) (tokens_source_df e)))\<rparr>, h')"
  using assms by (simp add: create_figures_def Let_def block_eqs total_tokens_by_source_def)

section \<open>Loading\<close>

lemma read_excel_all_store:
  "fst (read_excel_all wb h d) = h @ map (\<lambda>(k, sh). read_sheet sh) wb"
proof (induction wb arbitrary: h d)
  case Nil
  then show ?case by simp
next
  case (Cons a wb)
  obtain k sh where a: "a = (k, sh)" by (cases a)
  show ?case unfolding a read_excel_all.simps Cons.IH by simp
qed

lemma read_excel_all_None:
  "snd (read_excel_all wb h d) k = None \<longleftrightarrow> d k = None \<and> k \<notin> (\<lambda>(n, sh). strip n) ` set wb"
proof (induction wb arbitrary: h d)
  case Nil
  then show ?case by simp
next
  case (Cons a wb)
  obtain n sh where a: "a = (n, sh)" by (cases a)
  show ?case unfolding a read_excel_all.simps Cons.IH by auto
qed

lemma read_excel_all_Some:
  "snd (read_excel_all wb h d) k = Some p \<Longrightarrow>
     d k = Some p \<or> (length h \<le> p \<and> p < length h + length wb \<and> strip (fst (wb ! (p - length h))) = k)"
proof (induction wb arbitrary: h d)
  case Nil
  then show ?case by simp
next
  case (Cons a wb)
  obtain n sh where a: "a = (n, sh)" by (cases a)
  from Cons.prems have "snd (read_excel_all wb (h @ [read_sheet sh]) (d(strip n \<mapsto> length h))) k = Some p"
    unfolding a read_excel_all.simps .
  from Cons.IH [OF this]
  show ?case
  proof
    assume "(d(strip n \<mapsto> length h)) k = Some p"
    then show ?thesis unfolding a by (auto split: if_splits)
  next
    assume b: "length (h @ [read_sheet sh]) \<le> p \<and> p < length (h @ [read_sheet sh]) + length wb \<and>
       strip (fst (wb ! (p - length (h @ [read_sheet sh])))) = k"
    then have "p - length h = Suc (p - length (h @ [read_sheet sh]))" by auto
    with b show ?thesis by auto
  qed
qed

lemma load_missing_key:
  assumes "k \<in> {''Referrals'', ''Wallets Created'', ''POL Data''}"
    and "k \<notin> (\<lambda>(n, sh). strip n) ` set wb"
  shows "\<exists>err. load wb = Inl err"
proof -
  obtain h d where r: "read_excel_all wb [] Map.empty = (h, d)"
    by (cases "read_excel_all wb [] Map.empty")
  from assms(2) have "snd (read_excel_all wb [] Map.empty) k = None"
    by (simp add: read_excel_all_None)
  with r have "d k = None" by simp
  with assms(1) r show ?thesis
    by (auto simp: load_def split: option.splits)
qed

lemma load_missing_tokens:
  assumes "''Tokens per source'' \<notin> fst ` set wb"
  shows "\<exists>err. load wb = Inl err"
proof -
  obtain h d where r: "read_excel_all wb [] Map.empty = (h, d)"
    by (cases "read_excel_all wb [] Map.empty")
  from assms have "map_of wb ''Tokens per source'' = None"
    by (simp add: map_of_eq_None_iff)
  with r show ?thesis
    by (auto simp: load_def split: option.splits)
qed

lemma strip_examples:
  "strip ''Referrals'' = ''Referrals''" "strip ''Wallets Created'' = ''Wallets Created''"
  "strip ''POL Data'' = ''POL Data''" "strip ''Tokens per source'' = ''Tokens per source''"
  "strip '' Referrals'' = ''Referrals''" "strip ''Wallets Created '' = ''Wallets Created''"
  "strip '' POL Data '' = ''POL Data''" "strip ''Tokens per source '' = ''Tokens per source''"
  by (simp_all add: strip_def is_space_def)

lemma referral_columns_example:
  "columns (normalize_dates (read_sheet referral_sheet)) =
     [(''Date'', Datetime), (''Twitter'', Number), (''Discord'', Number)]"
  by (simp add: referral_sheet_def sheet_eval)

lemma referral_sources_example:
  "referral_sources_of (normalize_dates (read_sheet referral_sheet)) = [''Twitter'', ''Discord'']"
  by (simp add: referral_sources_of_def referral_columns_example)

text \<open>The definitions unfolded to evaluate loading on a concrete workbook.\<close>

lemmas load_eval = load_def alloc_def clean_def update_frame_def deref_def Let_def strip_examples
  referral_sources_example

lemma load_workbook_ok:
  "load workbook_ok =
     Inr \<lparr>heap = [add_Referrals [''Twitter'', ''Discord''] (normalize_dates (read_sheet referral_sheet)),
                  normalize_dates (read_sheet wallet_sheet),
                  normalize_dates (read_sheet fee_sheet),
                  read_sheet token_sheet,
                  normalize_tokens (read_sheet token_sheet)],
          df = [''Referrals'' \<mapsto> 0, ''Wallets Created'' \<mapsto> 1, ''POL Data'' \<mapsto> 2,
                ''Tokens per source'' \<mapsto> 3],
          referral_df = 0, wallet_df = 1, fee_df = 2, tokens_source_df = 4,
          referral_sources = [''Twitter'', ''Discord'']\<rparr>"
  by (simp add: workbook_ok_def load_eval token_sheet_def [THEN arg_cong, of header]
      numeral_2_eq_2 numeral_3_eq_3)

section \<open>Sheet names\<close>

lemma load_workbook_padded: "load workbook_padded = load workbook_ok"
  by (simp add: workbook_padded_def workbook_ok_def load_eval token_sheet_def [THEN arg_cong, of header])

lemma load_workbook_padded_tokens:
  "load workbook_padded_tokens = Inl (ValueError ''Worksheet named Tokens per source not found'')"
  by (simp add: workbook_padded_tokens_def load_eval)



section \<open>Missing and empty sheets\<close>

lemma load_workbook_no_tokens:
  "load workbook_no_tokens =
     Inr \<lparr>heap = [add_Referrals [''Twitter'', ''Discord''] (normalize_dates (read_sheet referral_sheet)),
                  normalize_dates (read_sheet wallet_sheet),
                  normalize_dates (read_sheet fee_sheet),
                  read_sheet token_sheet_empty,
                  normalize_tokens (read_sheet token_sheet_empty)],
          df = [''Referrals'' \<mapsto> 0, ''Wallets Created'' \<mapsto> 1, ''POL Data'' \<mapsto> 2,
                ''Tokens per source'' \<mapsto> 3],
          referral_df = 0, wallet_df = 1, fee_df = 2, tokens_source_df = 4,
          referral_sources = [''Twitter'', ''Discord'']\<rparr>"
  by (simp add: workbook_no_tokens_def load_eval token_sheet_empty_def [THEN arg_cong, of header]
      numeral_2_eq_2 numeral_3_eq_3)

lemma wallet_example_ok:
  "has_column (normalize_dates (read_sheet wallet_sheet)) ''Date''"
  "find (\<lambda>c. \<not> has_column (normalize_dates (read_sheet wallet_sheet)) c) wallet_cols = None"
  "summable wallet_cols (rows (wallet_df_filtered (normalize_dates (read_sheet wallet_sheet))))"
  by (simp_all add: has_column_def summable_def wallet_cols_def wallet_sheet_def sheet_eval agg_eval)

lemma referral_example_ok:
  "has_column (add_Referrals srcs (normalize_dates (read_sheet referral_sheet))) ''Date''"
  by (simp add: has_column_def add_Referrals_def column_names_assign)
     (simp add: referral_sheet_def sheet_eval)

lemma fee_example_ok:
  "has_column (normalize_dates (read_sheet fee_sheet)) ''Date''"
  "has_column (normalize_dates (read_sheet fee_sheet)) ''TxnFee(POL)''"
  "summable [''TxnFee(POL)''] (rows (fdf (normalize_dates (read_sheet fee_sheet))))"
  by (simp_all add: has_column_def summable_def fdf_def fee_sheet_def sheet_eval agg_eval)

lemma months_empty_example: "months (normalize_tokens (read_sheet token_sheet_empty)) = []"
  by (simp add: months_def pie_tsdf_def sort_by_Month_dt_def token_sheet_empty_def sheet_eval token_eval)

text \<open>
  Claim C8, at a workbook in which all four sheets are present and the token sheet has
  its header row and no record: \<^verbatim>\<open>create_figures\<close> reaches
  \<^verbatim>\<open>make_subplots(rows=1, cols=len(months))\<close> with no month, which raises, so the script
  ends without any figure.
\<close>

theorem empty_token_sheet_is_fatal:
  "main workbook_no_tokens = Inl (ValueError ''cols must be greater than 0'')"
proof -
  let ?e = "\<lparr>heap = [add_Referrals [''Twitter'', ''Discord''] (normalize_dates (read_sheet referral_sheet)),
                  normalize_dates (read_sheet wallet_sheet),
                  normalize_dates (read_sheet fee_sheet),
                  read_sheet token_sheet_empty,
                  normalize_tokens (read_sheet token_sheet_empty)],
          df = [''Referrals'' \<mapsto> 0, ''Wallets Created'' \<mapsto> 1, ''POL Data'' \<mapsto> 2,
                ''Tokens per source'' \<mapsto> 3],
          referral_df = 0, wallet_df = 1, fee_df = 2, tokens_source_df = 4,
          referral_sources = [''Twitter'', ''Discord'']\<rparr>"
  have "create_figures ?e = Inl (ValueError ''cols must be greater than 0'')"
    by (rule create_figures_ValueError)
       (simp_all add: wallet_example_ok referral_example_ok fee_example_ok months_empty_example)
  then show ?thesis
    by (simp add: main_def load_workbook_no_tokens)
qed

text \<open>A required sheet that is absent ends the script while loading; a wallet sheet
  without a record does not: the wallet totals are 0.\<close>

lemma main_missing_table:
  assumes "(k \<in> {''Referrals'', ''Wallets Created'', ''POL Data''} \<and> k \<notin> (\<lambda>(n, sh). strip n) ` set wb)
     \<or> ''Tokens per source'' \<notin> fst ` set wb"
  shows "\<exists>err. main wb = Inl err"
proof -
  from assms have "\<exists>err. load wb = Inl err"
    using load_missing_key [of k wb] load_missing_tokens [of wb] by blast
  then show ?thesis by (auto simp: main_def)
qed

lemma main_workbook_no_referrals: "main workbook_no_referrals = Inl (KeyError ''Referrals'')"
  by (simp add: main_def workbook_no_referrals_def load_eval)

lemma months_example: "months (normalize_tokens (read_sheet token_sheet)) = [24300, 24302]"
  by (simp add: months_def pie_tsdf_def sort_by_Month_dt_def token_sheet_def sheet_eval token_eval agg_eval)

lemma main_workbook_ok: "\<exists>figs. main workbook_ok = Inr figs"
proof -
  let ?e = "\<lparr>heap = [add_Referrals [''Twitter'', ''Discord''] (normalize_dates (read_sheet referral_sheet)),
                  normalize_dates (read_sheet wallet_sheet),
                  normalize_dates (read_sheet fee_sheet),
                  read_sheet token_sheet,
                  normalize_tokens (read_sheet token_sheet)],
          df = [''Referrals'' \<mapsto> 0, ''Wallets Created'' \<mapsto> 1, ''POL Data'' \<mapsto> 2,
                ''Tokens per source'' \<mapsto> 3],
          referral_df = 0, wallet_df = 1, fee_df = 2, tokens_source_df = 4,
          referral_sources = [''Twitter'', ''Discord'']\<rparr>"
  have "\<exists>figs h'. create_figures ?e = Inr (figs, h')"
    using create_figures_Inr [of ?e]
    by (simp add: wallet_example_ok referral_example_ok fee_example_ok months_example) blast
  then show ?thesis
    by (auto simp: main_def load_workbook_ok)
qed

lemma load_workbook_no_wallets:
  "load workbook_no_wallets =
     Inr \<lparr>heap = [add_Referrals [''Twitter'', ''Discord''] (normalize_dates (read_sheet referral_sheet)),
                  normalize_dates (read_sheet wallet_sheet_empty),
                  normalize_dates (read_sheet fee_sheet),
                  read_sheet token_sheet,
                  normalize_tokens (read_sheet token_sheet)],
          df = [''Referrals'' \<mapsto> 0, ''Wallets Created'' \<mapsto> 1, ''POL Data'' \<mapsto> 2,
                ''Tokens per source'' \<mapsto> 3],
          referral_df = 0, wallet_df = 1, fee_df = 2, tokens_source_df = 4,
          referral_sources = [''Twitter'', ''Discord'']\<rparr>"
  by (simp add: workbook_no_wallets_def load_eval token_sheet_def [THEN arg_cong, of header]
      numeral_2_eq_2 numeral_3_eq_3)

lemma wallet_empty_example_ok:
  "has_column (normalize_dates (read_sheet wallet_sheet_empty)) ''Date''"
  "find (\<lambda>c. \<not> has_column (normalize_dates (read_sheet wallet_sheet_empty)) c) wallet_cols = None"
  "summable wallet_cols (rows (wallet_df_filtered (normalize_dates (read_sheet wallet_sheet_empty))))"
  "platform_totals (normalize_dates (read_sheet wallet_sheet_empty)) = [(''Android'', 0), (''iOS'', 0), (''Web'', 0)]"
  by (simp_all add: has_column_def summable_def wallet_cols_def wallet_sheet_empty_def sheet_eval agg_eval
      platform_totals_def astype_int_def)

lemma main_workbook_no_wallets:
  "\<exists>figs. main workbook_no_wallets = Inr figs \<and> wallet_pie figs = ([(''Android'', 0), (''iOS'', 0), (''Web'', 0)], 0)"
proof -
  let ?e = "\<lparr>heap = [add_Referrals [''Twitter'', ''Discord''] (normalize_dates (read_sheet referral_sheet)),
                  normalize_dates (read_sheet wallet_sheet_empty),
                  normalize_dates (read_sheet fee_sheet),
                  read_sheet token_sheet,
                  normalize_tokens (read_sheet token_sheet)],
          df = [''Referrals'' \<mapsto> 0, ''Wallets Created'' \<mapsto> 1, ''POL Data'' \<mapsto> 2,
                ''Tokens per source'' \<mapsto> 3],
          referral_df = 0, wallet_df = 1, fee_df = 2, tokens_source_df = 4,
          referral_sources = [''Twitter'', ''Discord'']\<rparr>"
  have "\<exists>figs h'. create_figures ?e = Inr (figs, h') \<and>
      wallet_pie figs = ([(''Android'', 0), (''iOS'', 0), (''Web'', 0)], 0)"
    using create_figures_Inr [of ?e]
    by (simp add: wallet_empty_example_ok referral_example_ok fee_example_ok months_example series_sum_def)
       force
  then show ?thesis
    by (auto simp: main_def load_workbook_no_wallets)
qed

section \<open>The window filter\<close>

lemma date_le_refl [simp]: "date_le d d"
  by (simp add: date_le_def)

lemma on_or_after_iff: "on_or_after d (Stamp t) \<longleftrightarrow> date_le d (ts_date t)"
  by (cases t; cases d; cases "ts_date t") (auto simp: on_or_after_def ts_le_def midnight_def date_le_def)

lemma after_iff:
  "after d (Stamp t) \<longleftrightarrow> date_less d (ts_date t) \<or> (ts_date t = d \<and> 0 < ts_secs t)"
  by (cases t) (auto simp: after_def midnight_def)

lemma after_midnight_iff: "after d (Stamp (midnight d')) \<longleftrightarrow> date_less d d'"
  by (simp add: after_iff) (simp add: midnight_def)

lemma ts_date_midnight [simp]: "ts_date (midnight d) = d"
  by (simp add: midnight_def)

lemma token_window:
  assumes "r \<in> set (rows (normalize_tokens f))"
  shows "\<exists>d. r ''Date'' = Stamp (midnight d) \<and>
           (on_or_after (Date 2025 1 1) (r ''Date'') \<longleftrightarrow> date_le (Date 2025 1 1) d)"
proof -
  from assms obtain r0 where r0: "r ''Date'' = strip_time (to_datetime Fmt_mdY (r0 ''Date''))"
    "to_datetime Fmt_mdY (r0 ''Date'') \<noteq> NaN"
    by (auto simp: rows_normalize_tokens)
  have "\<exists>t. to_datetime Fmt_mdY c = Stamp t" if "to_datetime Fmt_mdY c \<noteq> NaN" for c
    using that by (cases c) (auto split: option.splits)
  with r0 obtain t where "r ''Date'' = Stamp (midnight (ts_date t))"
    by fastforce
  then show ?thesis
    by (auto simp: on_or_after_iff)
qed

text \<open>
  Claim C3, at a wallet sheet whose dates are date-time cells. The conversion of line 27
  returns timestamps as they are, so the time of day stays, and the comparison of line 72
  is made with midnight of 31 December 2024: the wallet created on that day at 13:00 is
  retained, counted in the totals, and opens a bucket for December 2024. Its date is not
  strictly after 2024-12-31. The token path strips the time (line 21) before it compares,
  and the comparison of the referral path with midnight of 1 January does not depend on
  the time of day.
\<close>

theorem wallet_window_time_of_day:
  "map (\<lambda>r. (r ''Date'', r ''Android'')) (rows (normalize_dates (read_sheet wallet_sheet_timed))) =
     [(Stamp (Timestamp (Date 2024 12 31) 46800), Num 4), (Stamp (Timestamp (Date 2025 1 2) 0), Num 1)]
   \<and> map (\<lambda>r. (r ''Date'', r ''Android''))
       (rows (wallet_df_filtered (normalize_dates (read_sheet wallet_sheet_timed)))) =
     [(Stamp (Timestamp (Date 2024 12 31) 46800), Num 4), (Stamp (Timestamp (Date 2025 1 2) 0), Num 1)]
   \<and> \<not> date_less (Date 2024 12 31) (Date 2024 12 31)
   \<and> map (\<lambda>b. (b ''Month'', b ''Android''))
       (rows (monthly_wallets (normalize_dates (read_sheet wallet_sheet_timed)))) =
     [(Stamp (Timestamp (Date 2024 12 1) 0), Num 4), (Stamp (Timestamp (Date 2025 1 1) 0), Num 1)]
   \<and> platform_totals (normalize_dates (read_sheet wallet_sheet_timed)) =
     [(''Android'', 5), (''iOS'', 1), (''Web'', 1)]"
  by (simp add: wallet_sheet_timed_def platform_totals_def astype_int_def sheet_eval agg_eval)

section \<open>Effects on the store\<close>

lemma length_clean [simp]: "length (clean tp wp rp fp h) = length h"
  by (simp add: clean_def)

lemma deref_clean:
  assumes "distinct [tp, wp, rp, fp]" "tp < length h" "wp < length h" "rp < length h" "fp < length h"
  shows "deref (clean tp wp rp fp h) tp = normalize_tokens (deref h tp)"
    and "deref (clean tp wp rp fp h) wp = normalize_dates (deref h wp)"
    and "deref (clean tp wp rp fp h) rp = normalize_dates (deref h rp)"
    and "deref (clean tp wp rp fp h) fp = normalize_dates (deref h fp)"
  using assms by (auto simp: clean_def deref_update_frame)

lemma length_read_excel_all: "length (fst (read_excel_all wb h d)) = length h + length wb"
  by (simp add: read_excel_all_store)

lemma load_length:
  assumes "load wb = Inr e"
  shows "length (heap e) = Suc (length wb)"
proof -
  obtain h d where r: "read_excel_all wb [] Map.empty = (h, d)"
    by (cases "read_excel_all wb [] Map.empty")
  then have "length h = length wb"
    using length_read_excel_all [of wb "[]" Map.empty] by simp
  with assms r show ?thesis
    by (auto simp: load_def alloc_def Let_def split: option.splits if_splits)
qed

lemma block_keeps:
  "keeps h (snd (token_charts p h))" "keeps h (snd (wallet_charts p h))"
  "keeps h (snd (referral_charts p srcs h))" "keeps h (snd (fee_chart p h))"
  "keeps h (snd (pie_data p h))"
  by (simp_all add: block_eqs)

text \<open>
  Claim C9, amended. \<^verbatim>\<open>create_figures\<close>, and each of its blocks (window filtering with
  \<^verbatim>\<open>.copy()\<close>, monthly aggregation, pivoting, totals), leaves every object that existed
  before it ran unchanged: what it builds are new objects, and the columns it adds in
  place (\<^verbatim>\<open>Month\<close>, \<^verbatim>\<open>Total\<close>) go to objects it has built itself. Category
  detection is a function of the columns of a frame and touches no object. Date
  normalization creates no object: it replaces the token, wallet, referral and fee objects
  that \<^verbatim>\<open>read_excel\<close> made by their normalized frames, in place.
\<close>

theorem frame_effects:
  "(create_figures e = Inr (figs, h') \<longrightarrow> keeps (heap e) h')
   \<and> keeps h (snd (token_charts p h)) \<and> keeps h (snd (wallet_charts p h))
   \<and> keeps h (snd (referral_charts p srcs h)) \<and> keeps h (snd (fee_chart p h))
   \<and> keeps h (snd (pie_data p h))
   \<and> length (clean tp wp rp fp h) = length h
   \<and> (distinct [tp, wp, rp, fp] \<and> tp < length h \<and> wp < length h \<and> rp < length h \<and> fp < length h \<longrightarrow>
        deref (clean tp wp rp fp h) tp = normalize_tokens (deref h tp)
        \<and> deref (clean tp wp rp fp h) wp = normalize_dates (deref h wp)
        \<and> deref (clean tp wp rp fp h) rp = normalize_dates (deref h rp)
        \<and> deref (clean tp wp rp fp h) fp = normalize_dates (deref h fp))
   \<and> (load wb = Inr e \<longrightarrow> length (heap e) = Suc (length wb))"
  using create_figures_keeps [of e figs h'] block_keeps [of h p] block_keeps(3) [of h p srcs]
    deref_clean [of tp wp rp fp h] load_length [of wb e]
  by (simp only: length_clean simp_thms) blast

lemma referral_rows_example:
  "length (rows (read_sheet referral_sheet)) = 5"
  "length (rows (normalize_dates (read_sheet referral_sheet))) = 3"
  by (simp_all add: referral_sheet_def sheet_eval)

text \<open>
  The claim as stated fails for date normalization: the object that \<^verbatim>\<open>read_excel\<close> made
  for the referral sheet (five records) is, after loading, the same object
  \<^verbatim>\<open>df["Referrals"]\<close> with three records: the store after loading does not keep the store
  of line 10.
\<close>

theorem normalization_in_place_counterexample:
  "deref (fst (read_excel_all workbook_ok [] Map.empty)) 0 = read_sheet referral_sheet
   \<and> length (rows (read_sheet referral_sheet)) = 5
   \<and> map_sum id (\<lambda>e. (referral_df e, df e ''Referrals'', length (rows (deref (heap e) 0))))
        (load workbook_ok) = Inr (0, Some 0, 3)
   \<and> map_sum id (\<lambda>e. keeps (fst (read_excel_all workbook_ok [] Map.empty)) (heap e))
        (load workbook_ok) = Inr False"
proof -
  have a: "fst (read_excel_all workbook_ok [] Map.empty) =
      [read_sheet referral_sheet, read_sheet wallet_sheet, read_sheet fee_sheet, read_sheet token_sheet]"
    by (simp add: read_excel_all_store workbook_ok_def)
  have b: "length (rows (add_Referrals srcs (normalize_dates (read_sheet referral_sheet)))) = 3" for srcs
    by (simp add: add_Referrals_def referral_rows_example)
  have "add_Referrals srcs (normalize_dates (read_sheet referral_sheet)) \<noteq> read_sheet referral_sheet" for srcs
    using b [of srcs] referral_rows_example(1) by auto
  then have c: "\<not> keeps (fst (read_excel_all workbook_ok [] Map.empty))
      [add_Referrals [''Twitter'', ''Discord''] (normalize_dates (read_sheet referral_sheet)),
       normalize_dates (read_sheet wallet_sheet), normalize_dates (read_sheet fee_sheet),
       read_sheet token_sheet, normalize_tokens (read_sheet token_sheet)]"
    unfolding a by (simp add: keeps_def)
  show ?thesis
    using c by (simp add: a load_workbook_ok b referral_rows_example)
qed

theorem frame_effects_witness:
  "(\<exists>e figs h'. load workbook_ok = Inr e \<and> create_figures e = Inr (figs, h') \<and> keeps (heap e) h'
      \<and> length (heap e) = Suc (length workbook_ok))
   \<and> distinct [4, 1, 0, 2 :: nat]
   \<and> deref (clean 4 1 0 2 [read_sheet referral_sheet, read_sheet wallet_sheet, read_sheet fee_sheet,
        read_sheet token_sheet, read_sheet token_sheet]) 1 = normalize_dates (read_sheet wallet_sheet)"
proof -
  let ?e = "\<lparr>heap = [add_Referrals [''Twitter'', ''Discord''] (normalize_dates (read_sheet referral_sheet)),
                  normalize_dates (read_sheet wallet_sheet),
                  normalize_dates (read_sheet fee_sheet),
                  read_sheet token_sheet,
                  normalize_tokens (read_sheet token_sheet)],
          df = [''Referrals'' \<mapsto> 0, ''Wallets Created'' \<mapsto> 1, ''POL Data'' \<mapsto> 2,
                ''Tokens per source'' \<mapsto> 3],
          referral_df = 0, wallet_df = 1, fee_df = 2, tokens_source_df = 4,
          referral_sources = [''Twitter'', ''Discord'']\<rparr>"
  let ?h = "[read_sheet referral_sheet, read_sheet wallet_sheet, read_sheet fee_sheet,
        read_sheet token_sheet, read_sheet token_sheet]"
  obtain figs h' where c: "create_figures ?e = Inr (figs, h')"
    using create_figures_Inr [of ?e]
    by (simp add: wallet_example_ok referral_example_ok fee_example_ok months_example) blast
  note t = frame_effects [of ?e figs h' ?h 0 "[]" 4 1 0 2 workbook_ok]
  from t c have k: "keeps (heap ?e) h'" by blast
  from t load_workbook_ok have l: "length (heap ?e) = Suc (length workbook_ok)" by blast
  have d: "distinct [4, 1, 0, 2 :: nat]" by simp
  with t have "deref (clean 4 1 0 2 ?h) 1 = normalize_dates (deref ?h 1)"
    by simp
  then have w: "deref (clean 4 1 0 2 ?h) 1 = normalize_dates (read_sheet wallet_sheet)"
    by simp
  from c k l load_workbook_ok have "\<exists>e figs h'. load workbook_ok = Inr e \<and> create_figures e = Inr (figs, h')
      \<and> keeps (heap e) h' \<and> length (heap e) = Suc (length workbook_ok)"
    by blast
  with d w show ?thesis by blast
qed

section \<open>The whole script\<close>

text \<open>After loading, the four names refer to the normalized frames of the sheets found
  for them, and the figures of a run that succeeds are the datasets defined above,
  computed from those frames.\<close>

lemma read_excel_all_ref:
  assumes "read_excel_all wb [] Map.empty = (h, d)" "d k = Some p"
  shows "p < length wb \<and> strip (fst (wb ! p)) = k \<and> deref h p = read_sheet (snd (wb ! p))"
proof -
  from assms have "snd (read_excel_all wb [] Map.empty) k = Some p" by simp
  from read_excel_all_Some [OF this] have p: "p < length wb" "strip (fst (wb ! p)) = k"
    by simp_all
  from assms(1) have "h = map (\<lambda>(k, sh). read_sheet sh) wb"
    using read_excel_all_store [of wb "[]" Map.empty] by simp
  with p show ?thesis
    by (simp add: deref_def case_prod_unfold)
qed

lemma load_Inr:
  assumes "load wb = Inr e"
  shows "referral_df e < length (heap e) \<and> wallet_df e < length (heap e)
     \<and> fee_df e < length (heap e) \<and> tokens_source_df e < length (heap e)
     \<and> strip (fst (wb ! referral_df e)) = ''Referrals''
     \<and> strip (fst (wb ! wallet_df e)) = ''Wallets Created''
     \<and> strip (fst (wb ! fee_df e)) = ''POL Data''
     \<and> referral_sources e = referral_sources_of (normalize_dates (read_sheet (snd (wb ! referral_df e))))
     \<and> deref (heap e) (referral_df e) =
         add_Referrals (referral_sources e) (normalize_dates (read_sheet (snd (wb ! referral_df e))))
     \<and> deref (heap e) (wallet_df e) = normalize_dates (read_sheet (snd (wb ! wallet_df e)))
     \<and> deref (heap e) (fee_df e) = normalize_dates (read_sheet (snd (wb ! fee_df e)))
     \<and> (\<exists>sh. map_of wb ''Tokens per source'' = Some sh
            \<and> deref (heap e) (tokens_source_df e) = normalize_tokens (read_sheet sh))"
proof -
  obtain h d where r: "read_excel_all wb [] Map.empty = (h, d)"
    by (cases "read_excel_all wb [] Map.empty")
  from assms r obtain rp wp fp sh where
    d: "d ''Referrals'' = Some rp" "d ''Wallets Created'' = Some wp" "d ''POL Data'' = Some fp"
    and sh: "map_of wb ''Tokens per source'' = Some sh"
    and e: "e = \<lparr>heap = update_frame rp
                 (add_Referrals (referral_sources_of (deref (clean (length h) wp rp fp (h @ [read_sheet sh])) rp)))
                 (clean (length h) wp rp fp (h @ [read_sheet sh])),
               df = d, referral_df = rp, wallet_df = wp, fee_df = fp, tokens_source_df = length h,
               referral_sources = referral_sources_of (deref (clean (length h) wp rp fp (h @ [read_sheet sh])) rp)\<rparr>"
    by (auto simp: load_def alloc_def Let_def split: option.splits if_splits)
  have len: "length h = length wb"
    using r read_excel_all_store [of wb "[]" Map.empty] by simp
  note refs = read_excel_all_ref [OF r d(1)] read_excel_all_ref [OF r d(2)] read_excel_all_ref [OF r d(3)]
  from refs have ne: "rp \<noteq> wp" "rp \<noteq> fp" "wp \<noteq> fp"
    by auto
  let ?h1 = "h @ [read_sheet sh]"
  have dist: "distinct [length h, wp, rp, fp]"
    using refs ne len by auto
  have lt: "length h < length ?h1" "wp < length ?h1" "rp < length ?h1" "fp < length ?h1"
    using refs len by auto
  note dc = deref_clean [OF dist lt]
  have old: "deref ?h1 p = read_sheet (snd (wb ! p))" if "p \<in> {rp, wp, fp}" for p
    using that refs len by auto
  have new: "deref ?h1 (length wb) = read_sheet sh"
    using len deref_alloc_new [of h "read_sheet sh"] by simp
  show ?thesis
    unfolding e using refs len ne sh dc old new
    by (simp add: deref_update_frame)
qed

lemma main_figures:
  assumes "main wb = Inr figs"
  shows "\<exists>rn rsh wn wsh fn fsh tsh.
      (rn, rsh) \<in> set wb \<and> strip rn = ''Referrals''
    \<and> (wn, wsh) \<in> set wb \<and> strip wn = ''Wallets Created''
    \<and> (fn, fsh) \<in> set wb \<and> strip fn = ''POL Data''
    \<and> (''Tokens per source'', tsh) \<in> set wb
    \<and> token_bar figs = (monthly_tokens (normalize_tokens (read_sheet tsh)),
                          format_0f (total_tokens (normalize_tokens (read_sheet tsh))))
    \<and> wallet_pie figs = (platform_totals (normalize_dates (read_sheet wsh)),
                           series_sum (platform_totals (normalize_dates (read_sheet wsh))))
    \<and> fst (wallet_bar figs) = wallets_melted (normalize_dates (read_sheet wsh))
    \<and> fee_line figs = (monthly_fee (normalize_dates (read_sheet fsh)),
                         total_fee (normalize_dates (read_sheet fsh)))
    \<and> token_source_bar figs = (total_tokens_by_source (normalize_tokens (read_sheet tsh)),
                                 trunc (series_sum (total_tokens_by_source (normalize_tokens (read_sheet tsh)))))
    \<and> referral_line figs =
         referral_by_source_Total (referral_sources_of (normalize_dates (read_sheet rsh)))
           (add_Referrals (referral_sources_of (normalize_dates (read_sheet rsh)))
             (normalize_dates (read_sheet rsh)))"
proof -
  from assms obtain e h' where l: "load wb = Inr e" and c: "create_figures e = Inr (figs, h')"
    by (auto simp: main_def split: sum.splits)
  note L = load_Inr [OF l]
  from L obtain tsh where t: "map_of wb ''Tokens per source'' = Some tsh"
    "deref (heap e) (tokens_source_df e) = normalize_tokens (read_sheet tsh)"
    by blast
  have len: "length (heap e) = Suc (length wb)"
    using l by (rule load_length)
  let ?T = "deref (heap e) (tokens_source_df e)"
  let ?W = "deref (heap e) (wallet_df e)"
  let ?R = "deref (heap e) (referral_df e)"
  let ?F = "deref (heap e) (fee_df e)"
  from c L have figs: "token_bar figs = (monthly_tokens ?T, format_0f (total_tokens ?T))"
    "wallet_pie figs = (platform_totals ?W, series_sum (platform_totals ?W))"
    "fst (wallet_bar figs) = wallets_melted ?W"
    "fee_line figs = (monthly_fee ?F, total_fee ?F)"
    "token_source_bar figs = (total_tokens_by_source ?T, trunc (series_sum (total_tokens_by_source ?T)))"
    "referral_line figs = referral_by_source_Total (referral_sources e) ?R"
    by (auto simp: create_figures_def Let_def block_eqs total_tokens_by_source_def
        split: if_splits option.splits)
  have mem: "(fst (wb ! p), snd (wb ! p)) \<in> set wb" if "p < length wb" for p
    using that by simp
  have rp: "referral_df e < length wb"
  proof -
    obtain h d where r: "read_excel_all wb [] Map.empty = (h, d)"
      by (cases "read_excel_all wb [] Map.empty")
    with l obtain rp where "d ''Referrals'' = Some rp" "referral_df e = rp"
      by (auto simp: load_def alloc_def Let_def split: option.splits if_splits)
    with read_excel_all_ref [OF r] show ?thesis by simp
  qed
  have wp: "wallet_df e < length wb"
  proof -
    obtain h d where r: "read_excel_all wb [] Map.empty = (h, d)"
      by (cases "read_excel_all wb [] Map.empty")
    with l obtain p where "d ''Wallets Created'' = Some p" "wallet_df e = p"
      by (auto simp: load_def alloc_def Let_def split: option.splits if_splits)
    with read_excel_all_ref [OF r] show ?thesis by simp
  qed
  have fp: "fee_df e < length wb"
  proof -
    obtain h d where r: "read_excel_all wb [] Map.empty = (h, d)"
      by (cases "read_excel_all wb [] Map.empty")
    with l obtain p where "d ''POL Data'' = Some p" "fee_df e = p"
      by (auto simp: load_def alloc_def Let_def split: option.splits if_splits)
    with read_excel_all_ref [OF r] show ?thesis by simp
  qed
  from t(1) have tm: "(''Tokens per source'', tsh) \<in> set wb"
    by (rule map_of_SomeD)
  show ?thesis
    using L t figs mem [OF rp] mem [OF wp] mem [OF fp] tm
    by (intro exI [of _ "fst (wb ! referral_df e)"] exI [of _ "snd (wb ! referral_df e)"]
        exI [of _ "fst (wb ! wallet_df e)"] exI [of _ "snd (wb ! wallet_df e)"]
        exI [of _ "fst (wb ! fee_df e)"] exI [of _ "snd (wb ! fee_df e)"] exI [of _ tsh])
       simp
qed

end
